theory Spec2Isabelle
  imports Complex_Main "HOL-Library.Word"
begin

section \<open>Cognito authentication and custodial wallets for Nakama\<close>

text \<open>
  The repository holds two Go modules for the same job: \<^verbatim>\<open>runtime/\<close> (auth.go, main.go,
  wallet.go, evm_signer.go, kms.go, errors.go) and the older \<^verbatim>\<open>cognito_module/\<close> (jwt.go,
  main.go, wallet.go). Both are embedded. Where the two modules use one name, the
  definition of the runtime module keeps it and the one of cognito_module carries the
  suffix \<open>_cm\<close>.

  Where the code is found under \<^verbatim>\<open>src/\<close>: \<^verbatim>\<open>runtime/main.go\<close> holds main.go and, from its second
  package clause on, wallet.go of the runtime module; \<^verbatim>\<open>unnamed/part_000\<close> holds its
  types.go; \<^verbatim>\<open>unnamed/part_004\<close> holds main.go and wallet_test.go of cognito_module, and
  \<^verbatim>\<open>unnamed/part_005\<close> its wallet.go.

  Conventions. A Go function returning \<open>(T, error)\<close> returns \<open>go_error + T\<close> (\<open>Inl\<close> the
  error); a method that mutates its receiver or calls the Nakama collaborator takes the
  state and returns the new one. \<open>time.Time\<close> is an \<open>int\<close>: nanoseconds since the Unix
  epoch. A Go \<open>string\<close> is a byte string, as \<open>string\<close> is here.
\<close>

subsection \<open>Errors (runtime/errors.go)\<close>

datatype sentinel =
    ErrInvalidToken | ErrTokenExpired | ErrInvalidIssuer | ErrInvalidAudience
  | ErrInvalidTokenType | ErrMissingSubject | ErrJWKSFetch | ErrInvalidSignature
  | ErrAuthFailed | ErrLinkFailed | ErrWalletNotEnabled | ErrWalletNotFound
  | ErrKMSOperation | ErrInvalidChain | ErrRateLimitExceeded | ErrInsufficientFunds
  | ErrInvalidPayload

text \<open>
  The sentinels of golang-jwt that \<open>Parse\<close> and its validator join to their errors.
  \<open>jwt_ErrTokenExpired\<close> is \<open>jwt.ErrTokenExpired\<close> of the library, which is not the
  \<open>ErrTokenExpired\<close> of errors.go.
\<close>

datatype jwt_sentinel =
    ErrTokenMalformed | ErrTokenUnverifiable | ErrTokenSignatureInvalid | ErrTokenInvalidClaims
  | jwt_ErrTokenExpired | ErrTokenNotValidYet | ErrInvalidType

type_synonym byte = "8 word"
type_synonym time = int

datatype json =
    JNull | JBool bool | JNumber rat | JString string | JArray "json list"
  | JObject "(string \<times> json) list"

datatype fmt_arg = S string | I int | V "json option"

text \<open>
  A Go \<open>error\<close> value. \<open>Errorf f args w\<close> is \<open>fmt.Errorf(f, args...)\<close> with the error
  given for \<open>%w\<close> (if any) in \<open>w\<close>; \<open>AuthError\<close> is the struct of errors.go;
  \<open>JwtError s w\<close> is an error of golang-jwt joined to its sentinel \<open>s\<close>; \<open>Joined\<close> is
  the errors of its validator, joined; \<open>External\<close> is an error of a collaborator
  (network, storage, Nakama, a library); \<open>Panic\<close> stands for a run-time panic of the
  goroutine.
\<close>

datatype go_error =
    Sentinel sentinel
  | AuthError string string "go_error option"
  | Errorf string "fmt_arg list" "go_error option"
  | JwtError jwt_sentinel "go_error option"
  | Joined "jwt_sentinel list"
  | External string
  | Panic string

definition NewAuthError :: "string \<Rightarrow> string \<Rightarrow> go_error option \<Rightarrow> go_error" where
  "NewAuthError code message err = AuthError code message err"

text \<open>The \<open>Code\<close> field, for the errors that are an \<open>AuthError\<close>.\<close>

fun Code :: "go_error \<Rightarrow> string option" where
  "Code (AuthError code message err) = Some code"
| "Code e = None"

text \<open>\<open>Unwrap\<close>: \<open>AuthError.Unwrap\<close> of errors.go, and what \<open>%w\<close> and golang-jwt wrap.\<close>

fun Unwrap :: "go_error \<Rightarrow> go_error option" where
  "Unwrap (AuthError code message err) = err"
| "Unwrap (Errorf f args w) = w"
| "Unwrap (JwtError s w) = w"
| "Unwrap e = None"


subsection \<open>Token claims and verification (runtime/auth.go)\<close>

text \<open>
  \<open>CognitoTokenClaims\<close> with the fields of \<open>jwt.RegisteredClaims\<close> that the module reads
  or that the validator of golang-jwt checks. \<open>ExpiresAt\<close> and \<open>NotBefore\<close> are pointers
  (\<open>*jwt.NumericDate\<close>): \<open>None\<close> when the token has no \<open>exp\<close> or no \<open>nbf\<close>.
\<close>

record CognitoTokenClaims =
  Issuer :: string
  Subject :: string
  Audience :: "string list"
  ExpiresAt :: "time option"
  NotBefore :: "time option"
  TokenUse :: string
  Email :: string
  EmailVerified :: bool
  Name :: string
  Picture :: string
  CognitoGroups :: "string list"

record Config =
  CognitoIssuer :: string
  CognitoAudience :: string
  JWKSCacheTTL :: int
  WalletEnabled :: bool
  WalletChain :: string
  WalletMasterKeyARN :: string
  WalletDerivationPath :: string

datatype signing_method =
    SigningMethodRSA | SigningMethodRSAPSS | SigningMethodHMAC | SigningMethodECDSA
  | SigningMethodEd25519 | SigningMethodNone

datatype jwt_claims = TypedClaims CognitoTokenClaims | MapClaims "string \<rightharpoonup> json"

text \<open>\<open>jwt.Token\<close>, as golang-jwt hands it to a key function and returns it from \<open>Parse\<close>.\<close>

record jwt_Token =
  Method :: signing_method
  Header :: "string \<rightharpoonup> json"
  Claims :: jwt_claims
  Valid :: bool

text \<open>The loop of \<open>VerifyCognitoIDToken\<close> over \<open>claims.Audience\<close>, with its \<open>break\<close>.\<close>

fun validAudience :: "string \<Rightarrow> string list \<Rightarrow> bool" where
  "validAudience expected [] = False"
| "validAudience expected (aud # rest) =
     (if aud = expected then True else validAudience expected rest)"

text \<open>
  \<open>VerifyCognitoIDToken\<close>. The call \<open>jwt.ParseWithClaims(tokenStr, &CognitoTokenClaims{},
  m.jwks.Keyfunc)\<close> is all library code (golang-jwt and keyfunc, which also fetches the
  key set): its result is the argument \<open>parsed\<close>; what the library does to produce it
  is \<open>jwt_Parse\<close>, below. \<open>now\<close> is the \<open>time.Now()\<close> of the module's own expiry check,
  which comes after the library's. \<open>claims.ExpiresAt.Time\<close> dereferences the pointer: a
  panic when it is nil.
\<close>

definition VerifyCognitoIDToken ::
  "Config \<Rightarrow> time \<Rightarrow> go_error + jwt_Token \<Rightarrow> go_error + CognitoTokenClaims" where
  "VerifyCognitoIDToken config now parsed =
    (case parsed of
       Inl err \<Rightarrow> Inl (NewAuthError ''TOKEN_PARSE_FAILED'' ''Failed to parse token'' (Some err))
     | Inr token \<Rightarrow>
        if \<not> Valid token then
          Inl (NewAuthError ''TOKEN_INVALID'' ''Token validation failed''
                 (Some (Sentinel ErrInvalidToken)))
        else
          (case Claims token of
             MapClaims m \<Rightarrow>
               Inl (NewAuthError ''CLAIMS_EXTRACTION_FAILED'' ''Failed to extract claims''
                      (Some (Sentinel ErrInvalidToken)))
           | TypedClaims claims \<Rightarrow>
               if Issuer claims \<noteq> CognitoIssuer config then
                 Inl (NewAuthError ''INVALID_ISSUER''
                        (''Expected issuer '' @ CognitoIssuer config)
                        (Some (Sentinel ErrInvalidIssuer)))
               else if \<not> validAudience (CognitoAudience config) (Audience claims) then
                 Inl (NewAuthError ''INVALID_AUDIENCE''
                        (''Expected audience '' @ CognitoAudience config)
                        (Some (Sentinel ErrInvalidAudience)))
               else if TokenUse claims \<noteq> ''id'' then
                 Inl (NewAuthError ''INVALID_TOKEN_USE'' ''Expected token_use=id''
                        (Some (Sentinel ErrInvalidTokenType)))
               else
                 (case ExpiresAt claims of
                    None \<Rightarrow> Inl (Panic ''nil pointer dereference'')
                  | Some expiresAt \<Rightarrow>
                      if now > expiresAt then
                        Inl (NewAuthError ''TOKEN_EXPIRED'' ''Token has expired''
                               (Some (Sentinel ErrTokenExpired)))
                      else if Subject claims = [] then
                        Inl (NewAuthError ''MISSING_SUBJECT'' ''Token missing subject claim''
                               (Some (Sentinel ErrMissingSubject)))
                      else Inr claims)))"

text \<open>The loop of \<open>ExtractUserVars\<close> that joins the groups with commas.\<close>

fun join_groups :: "nat \<Rightarrow> string list \<Rightarrow> string \<Rightarrow> string" where
  "join_groups i [] groups = groups"
| "join_groups i (g # rest) groups =
     join_groups (i + 1) rest ((if i > 0 then groups @ '','' else groups) @ g)"

text \<open>
  A Go \<open>map[string]string\<close> built by assignments is an association list with one pair
  per key: \<open>m[k] = v\<close> is \<open>map_put\<close>, \<open>m[k]\<close> is \<open>map_of\<close>, \<open>len(m)\<close> is \<open>length\<close>.
\<close>

fun map_put :: "'k \<Rightarrow> 'v \<Rightarrow> ('k \<times> 'v) list \<Rightarrow> ('k \<times> 'v) list" where
  "map_put k v [] = [(k, v)]"
| "map_put k v ((k', v') # m) = (if k' = k then (k, v) # m else (k', v') # map_put k v m)"

definition ExtractUserVars :: "CognitoTokenClaims \<Rightarrow> (string \<times> string) list" where
  "ExtractUserVars claims =
    (let vars = [];
         vars = (if Email claims \<noteq> [] then map_put ''email'' (Email claims) vars else vars);
         vars = map_put ''email_verified''
                  (if EmailVerified claims then ''true'' else ''false'') vars;
         vars = (if Name claims \<noteq> [] then map_put ''name'' (Name claims) vars else vars);
         vars = (if Picture claims \<noteq> [] then map_put ''picture'' (Picture claims) vars
                 else vars);
         vars = map_put ''provider'' ''cognito'' vars;
         vars = (if length (CognitoGroups claims) > 0
                 then map_put ''cognito_groups'' (join_groups 0 (CognitoGroups claims) []) vars
                 else vars)
     in vars)"

subsection \<open>Key cache (cognito_module/jwt.go)\<close>

record JWK =
  Kid :: string
  Kty :: string
  Alg :: string
  Use :: string
  N :: string
  E :: string

record rsa_PublicKey =
  rsa_N :: nat
  rsa_E :: int

record JWKSCache =
  issuer :: string
  jwksURL :: string
  cache :: "string \<rightharpoonup> rsa_PublicKey"
  ttl :: int
  lastFetch :: time

text \<open>An HTTP response: the status code, and the body as \<open>io.ReadAll\<close> returns it.\<close>

record http_Response =
  StatusCode :: int
  Body :: "go_error + string"

text \<open>
  What golang-jwt computes from a token string before and after it asks for the key:
  the decoded token (\<open>ParseUnverified\<close>), and whether \<open>Method.Verify\<close> accepts the
  signature under a key.
\<close>

record unverified_token =
  decoded :: jwt_Token
  signature_ok :: "rsa_PublicKey \<Rightarrow> bool"

text \<open>
  The network and the libraries cognito_module calls, as parameters: \<open>http.Get\<close>,
  \<open>json.Unmarshal\<close> into a \<open>JWKS\<close>, \<open>base64.RawURLEncoding.DecodeString\<close>, and the
  decoding steps of \<open>jwt.Parse\<close>.
\<close>

record lib =
  http_Get :: "string \<Rightarrow> go_error + http_Response"
  json_Unmarshal_JWKS :: "string \<Rightarrow> go_error + JWK list"
  base64_DecodeString :: "string \<Rightarrow> go_error + byte list"
  jwt_ParseUnverified :: "string \<Rightarrow> go_error + unverified_token"

text \<open>The zero \<open>time.Time\<close> (1 January of year 1), which \<open>NewJWKSCache\<close> leaves in \<open>lastFetch\<close>.\<close>

definition zero_Time :: time where
  "zero_Time = - 62135596800 * 1000000000"

definition NewJWKSCache :: "string \<Rightarrow> int \<Rightarrow> JWKSCache" where
  "NewJWKSCache iss t =
     \<lparr>issuer = iss, jwksURL = iss @ ''/.well-known/jwks.json'', cache = Map.empty,
      ttl = t, lastFetch = zero_Time\<rparr>"

text \<open>\<open>new(big.Int).SetBytes\<close>: the bytes as a big-endian number.\<close>

fun SetBytes :: "byte list \<Rightarrow> nat \<Rightarrow> nat" where
  "SetBytes [] acc = acc"
| "SetBytes (b # bs) acc = SetBytes bs (acc * 256 + unat b)"

text \<open>\<open>int(e.Int64())\<close>: the low 64 bits, read as a signed number.\<close>

definition Int64 :: "nat \<Rightarrow> int" where
  "Int64 n = sint (word_of_nat n :: 64 word)"

definition jwkToRSAPublicKey :: "lib \<Rightarrow> JWK \<Rightarrow> go_error + rsa_PublicKey" where
  "jwkToRSAPublicKey l jwk =
    (case base64_DecodeString l (N jwk) of
       Inl err \<Rightarrow> Inl (Errorf ''failed to decode n: %w'' [] (Some err))
     | Inr nBytes \<Rightarrow>
        (case base64_DecodeString l (E jwk) of
           Inl err \<Rightarrow> Inl (Errorf ''failed to decode e: %w'' [] (Some err))
         | Inr eBytes \<Rightarrow>
             Inr \<lparr>rsa_N = SetBytes nBytes 0, rsa_E = Int64 (SetBytes eBytes 0)\<rparr>))"

text \<open>The loop of \<open>fetchJWKS\<close> over \<open>jwks.Keys\<close>, writing into \<open>c.cache\<close>.\<close>

fun update_cache ::
  "lib \<Rightarrow> JWK list \<Rightarrow> (string \<rightharpoonup> rsa_PublicKey) \<Rightarrow> (string \<rightharpoonup> rsa_PublicKey)" where
  "update_cache l [] m = m"
| "update_cache l (jwk # rest) m =
    (if Kty jwk \<noteq> ''RSA'' then update_cache l rest m
     else case jwkToRSAPublicKey l jwk of
            Inl err \<Rightarrow> update_cache l rest m
          | Inr key \<Rightarrow> update_cache l rest (m(Kid jwk \<mapsto> key)))"

text \<open>\<open>fetchJWKS\<close>: the error it returns (\<open>None\<close> for nil) and the cache afterwards.\<close>

definition fetchJWKS :: "lib \<Rightarrow> time \<Rightarrow> JWKSCache \<Rightarrow> go_error option \<times> JWKSCache" where
  "fetchJWKS l now c =
    (case http_Get l (jwksURL c) of
       Inl err \<Rightarrow> (Some (Errorf ''failed to fetch JWKS: %w'' [] (Some err)), c)
     | Inr resp \<Rightarrow>
        if StatusCode resp \<noteq> 200 then
          (Some (Errorf ''JWKS endpoint returned status %d'' [I (StatusCode resp)] None), c)
        else
          (case Body resp of
             Inl err \<Rightarrow> (Some (Errorf ''failed to read JWKS response: %w'' [] (Some err)), c)
           | Inr body \<Rightarrow>
              (case json_Unmarshal_JWKS l body of
                 Inl err \<Rightarrow> (Some (Errorf ''failed to parse JWKS: %w'' [] (Some err)), c)
               | Inr keys \<Rightarrow>
                  (None, c\<lparr>cache := update_cache l keys (cache c), lastFetch := now\<rparr>))))"

text \<open>\<open>time.Since(c.lastFetch)\<close>: a \<open>time.Duration\<close>, which saturates at the ends of int64.\<close>

definition time_Since :: "time \<Rightarrow> time \<Rightarrow> int" where
  "time_Since now t = max (- (2 ^ 63)) (min (2 ^ 63 - 1) (now - t))"

definition GetKey ::
  "lib \<Rightarrow> time \<Rightarrow> string \<Rightarrow> JWKSCache \<Rightarrow> (go_error + rsa_PublicKey) \<times> JWKSCache" where
  "GetKey l now kid c =
    (let found = cache c kid;
         needsRefresh = (time_Since now (lastFetch c) > ttl c)
     in case (found, needsRefresh) of
          (Some key, False) \<Rightarrow> (Inr key, c)
        | _ \<Rightarrow>
          (case fetchJWKS l now c of
             (Some err, c') \<Rightarrow> (Inl (Errorf ''failed to fetch JWKS: %w'' [] (Some err)), c')
           | (None, c') \<Rightarrow>
              (case cache c' kid of
                 None \<Rightarrow> (Inl (Errorf (''key with kid '' @ [CHR 0x27] @ ''%s'' @ [CHR 0x27]
                                  @ '' not found in JWKS'') [S kid] None), c')
               | Some key \<Rightarrow> (Inr key, c'))))"

subsection \<open>The token library: \<open>jwt.Parse\<close>, \<open>jwt.ParseWithClaims\<close> and their validator\<close>

text \<open>
  The validator of golang-jwt v5 (a library, not code of the repository) as \<open>jwt.Parse\<close>
  and \<open>jwt.ParseWithClaims\<close> run it when they are called with no options, as both modules
  call them: \<open>exp\<close> and \<open>nbf\<close> are checked when the token has them, with no leeway;
  \<open>iat\<close>, \<open>aud\<close>, \<open>iss\<close> and \<open>sub\<close> are not checked.

  \<open>newNumericDateFromSeconds\<close>: the instant of a JSON number of seconds, cut down to the
  whole second (\<open>jwt.TimePrecision\<close> is a second).
\<close>

definition newNumericDateFromSeconds :: "rat \<Rightarrow> time" where
  "newNumericDateFromSeconds f = \<lfloor>f\<rfloor> * 1000000000"

text \<open>
  \<open>MapClaims.parseNumericDate\<close>: no date for a claim that is absent or the number 0, an
  error for a claim that is not a number.
\<close>

fun parseNumericDate :: "json option \<Rightarrow> jwt_sentinel + time option" where
  "parseNumericDate None = Inr None"
| "parseNumericDate (Some (JNumber f)) =
     (if f = 0 then Inr None else Inr (Some (newNumericDateFromSeconds f)))"
| "parseNumericDate (Some v) = Inl ErrInvalidType"

fun GetExpirationTime :: "jwt_claims \<Rightarrow> jwt_sentinel + time option" where
  "GetExpirationTime (TypedClaims c) = Inr (ExpiresAt c)"
| "GetExpirationTime (MapClaims m) = parseNumericDate (m ''exp'')"

fun GetNotBefore :: "jwt_claims \<Rightarrow> jwt_sentinel + time option" where
  "GetNotBefore (TypedClaims c) = Inr (NotBefore c)"
| "GetNotBefore (MapClaims m) = parseNumericDate (m ''nbf'')"

text \<open>\<open>verifyExpiresAt\<close>, with \<open>cmp.Before(exp.Time)\<close>: the errors it adds.\<close>

definition verifyExpiresAt :: "jwt_claims \<Rightarrow> time \<Rightarrow> jwt_sentinel list" where
  "verifyExpiresAt claims cmp =
    (case GetExpirationTime claims of
       Inl err \<Rightarrow> [err]
     | Inr None \<Rightarrow> []
     | Inr (Some expiresAt) \<Rightarrow> if cmp < expiresAt then [] else [jwt_ErrTokenExpired])"

text \<open>\<open>verifyNotBefore\<close>, with \<open>!cmp.Before(nbf.Time)\<close>.\<close>

definition verifyNotBefore :: "jwt_claims \<Rightarrow> time \<Rightarrow> jwt_sentinel list" where
  "verifyNotBefore claims cmp =
    (case GetNotBefore claims of
       Inl err \<Rightarrow> [err]
     | Inr None \<Rightarrow> []
     | Inr (Some nbf) \<Rightarrow> if \<not> cmp < nbf then [] else [ErrTokenNotValidYet])"

text \<open>\<open>Validator.Validate\<close>: the errors it collects; \<open>now\<close> is its \<open>time.Now()\<close>.\<close>

definition Validate :: "time \<Rightarrow> jwt_claims \<Rightarrow> jwt_sentinel list" where
  "Validate now claims = verifyExpiresAt claims now @ verifyNotBefore claims now"

text \<open>
  \<open>jwt.Parse\<close> and \<open>jwt.ParseWithClaims\<close> of golang-jwt v5, in the order of their steps:
  decode without verifying (into the claims type the caller gave), ask the key function
  for the key, verify the signature, validate the claims at the time \<open>now\<close>, set
  \<open>Valid\<close>. \<open>'s\<close> is the state the key function works on.
\<close>

definition jwt_Parse ::
  "time \<Rightarrow> go_error + unverified_token
     \<Rightarrow> (jwt_Token \<Rightarrow> 's \<Rightarrow> (go_error + rsa_PublicKey) \<times> 's) \<Rightarrow> 's
     \<Rightarrow> (go_error + jwt_Token) \<times> 's" where
  "jwt_Parse now unverified keyFunc s =
    (case unverified of
       Inl err \<Rightarrow> (Inl err, s)
     | Inr u \<Rightarrow>
        (case keyFunc (decoded u) s of
           (Inl err, s') \<Rightarrow> (Inl (JwtError ErrTokenUnverifiable (Some err)), s')
         | (Inr key, s') \<Rightarrow>
             if \<not> signature_ok u key then (Inl (JwtError ErrTokenSignatureInvalid None), s')
             else if Validate now (Claims (decoded u)) \<noteq> [] then
               (Inl (JwtError ErrTokenInvalidClaims
                       (Some (Joined (Validate now (Claims (decoded u)))))), s')
             else (Inr ((decoded u)\<lparr>Valid := True\<rparr>), s')))"

subsection \<open>Token verification (cognito_module/jwt.go)\<close>

record CognitoConfig =
  Issuer_cm :: string
  Audience_cm :: string
  JWKSCacheTTL_cm :: int
  WalletChain_cm :: string
  WalletMasterKeyARN_cm :: string
  WalletDerivePath_cm :: string

text \<open>The key function \<open>verifyCognitoIDToken\<close> passes to \<open>jwt.Parse\<close>.\<close>

definition keyfunc ::
  "lib \<Rightarrow> time \<Rightarrow> jwt_Token \<Rightarrow> JWKSCache \<Rightarrow> (go_error + rsa_PublicKey) \<times> JWKSCache" where
  "keyfunc l now token c =
    (if Method token \<noteq> SigningMethodRSA then
       (Inl (Errorf ''unexpected signing method: %v'' [V (Header token ''alg'')] None), c)
     else case Header token ''kid'' of
            Some (JString kid) \<Rightarrow> GetKey l now kid c
          | _ \<Rightarrow> (Inl (Errorf ''missing kid in token header'' [] None), c))"

text \<open>A type assertion \<open>v.(string)\<close> on a claim: the string and \<open>ok\<close>.\<close>

fun as_string :: "json option \<Rightarrow> string \<times> bool" where
  "as_string (Some (JString s)) = (s, True)"
| "as_string v = ([], False)"

text \<open>The audience \<open>verifyCognitoIDToken\<close> compares with the configured one.\<close>

definition token_aud :: "(string \<rightharpoonup> json) \<Rightarrow> string" where
  "token_aud claims =
    (case as_string (claims ''aud'') of
       (aud, True) \<Rightarrow> aud
     | (aud, False) \<Rightarrow>
        (case claims ''aud'' of
           Some (JArray (first # rest)) \<Rightarrow>
             (case as_string (Some first) of (audStr, True) \<Rightarrow> audStr | (audStr, False) \<Rightarrow> aud)
         | _ \<Rightarrow> aud))"

text \<open>\<open>int64(exp)\<close> of a float64: the fraction is dropped (for a value in the range of int64).\<close>

definition int64_of_float :: "rat \<Rightarrow> int" where
  "int64_of_float x = (if 0 \<le> x then \<lfloor>x\<rfloor> else \<lceil>x\<rceil>)"

text \<open>\<open>time.Now().Unix()\<close>: whole seconds.\<close>

definition Unix :: "time \<Rightarrow> int" where
  "Unix now = now div 1000000000"

text \<open>The checks of \<open>verifyCognitoIDToken\<close> on the claims of the parsed token.\<close>

definition check_claims ::
  "CognitoConfig \<Rightarrow> time \<Rightarrow> (string \<rightharpoonup> json) \<Rightarrow> go_error + (string \<rightharpoonup> json)" where
  "check_claims config now claims =
    (case as_string (claims ''iss'') of (iss, ok) \<Rightarrow>
       if \<not> ok \<or> iss \<noteq> Issuer_cm config then
         Inl (Errorf ''invalid issuer: expected %s, got %s'' [S (Issuer_cm config), S iss] None)
       else if token_aud claims \<noteq> Audience_cm config then
         Inl (Errorf ''invalid audience: expected %s, got %s''
                [S (Audience_cm config), S (token_aud claims)] None)
       else
         (case as_string (claims ''token_use'') of (tokenUse, ok) \<Rightarrow>
            if \<not> ok \<or> tokenUse \<noteq> ''id'' then
              Inl (Errorf (''invalid token_use: expected '' @ [CHR 0x27] @ ''id'' @ [CHR 0x27]
                     @ '', got '' @ [CHR 0x27] @ ''%s'' @ [CHR 0x27]) [S tokenUse] None)
            else
              (case claims ''exp'' of
                 Some (JNumber expiry) \<Rightarrow>
                   if Unix now \<ge> int64_of_float expiry then
                     Inl (Errorf ''token has expired'' [] None)
                   else Inr claims
               | _ \<Rightarrow> Inl (Errorf ''missing or invalid exp claim'' [] None))))"

definition verifyCognitoIDToken ::
  "lib \<Rightarrow> time \<Rightarrow> CognitoConfig \<Rightarrow> string \<Rightarrow> JWKSCache
     \<Rightarrow> (go_error + (string \<rightharpoonup> json)) \<times> JWKSCache" where
  "verifyCognitoIDToken l now config idToken c =
    (case jwt_Parse now (jwt_ParseUnverified l idToken) (keyfunc l now) c of
       (Inl err, c') \<Rightarrow> (Inl (Errorf ''failed to parse/verify token: %w'' [] (Some err)), c')
     | (Inr token, c') \<Rightarrow>
        if \<not> Valid token then (Inl (Errorf ''token is invalid'' [] None), c')
        else
          (case Claims token of
             TypedClaims t \<Rightarrow> (Inl (Errorf ''failed to extract claims'' [] None), c')
           | MapClaims claims \<Rightarrow> (check_claims config now claims, c')))"

subsection \<open>Parsing numbers: \<open>big.Int.SetString(s, 0)\<close>\<close>

text \<open>
  \<open>signAndSendEVMTransaction\<close> reads its numeric fields with \<open>SetString(s, 0)\<close> of Go's
  math/big (a library). The embedding follows the library's scanner for base 0: an
  optional sign; a prefix \<open>0b\<close>, \<open>0o\<close>, \<open>0x\<close> (either case) or a leading \<open>0\<close> for octal,
  decimal otherwise; digits, with \<open>_\<close> allowed only between a prefix or digit and a
  digit; and nothing may be left over.
\<close>

datatype prev_char = PrevOther | PrevDigit | PrevSep

datatype base_prefix = NoPrefix | Prefix_b | Prefix_o | Prefix_x | Prefix_0

text \<open>The value of a digit in a base up to 36; 63 (\<open>MaxBase + 1\<close>) for any other byte.\<close>

definition digit_val :: "char \<Rightarrow> nat" where
  "digit_val ch =
    (let c = (of_char ch :: nat) in
     if 48 \<le> c \<and> c \<le> 57 then c - 48
     else if 97 \<le> c \<and> c \<le> 122 then c - 97 + 10
     else if 65 \<le> c \<and> c \<le> 90 then c - 65 + 10
     else 63)"

text \<open>
  The digit loop of \<open>nat.scan\<close>: base, input, previous character, whether a separator
  was misplaced, digits counted, value so far. It returns the input it did not consume.
\<close>

fun scan_digits ::
  "nat \<Rightarrow> string \<Rightarrow> prev_char \<Rightarrow> bool \<Rightarrow> nat \<Rightarrow> nat \<Rightarrow> string \<times> prev_char \<times> bool \<times> nat \<times> nat"
  where
  "scan_digits b [] prev invalSep count z = ([], prev, invalSep, count, z)"
| "scan_digits b (ch # rest) prev invalSep count z =
    (if ch = CHR ''_'' then
       scan_digits b rest PrevSep (invalSep \<or> prev \<noteq> PrevDigit) count z
     else if digit_val ch \<ge> b then (ch # rest, prev, invalSep, count, z)
     else scan_digits b rest PrevDigit invalSep (count + 1) (z * b + digit_val ch))"

text \<open>The prefix step of \<open>nat.scan\<close>: base, prefix, previous character, count, rest.\<close>

definition scan_prefix :: "string \<Rightarrow> nat \<times> base_prefix \<times> prev_char \<times> nat \<times> string" where
  "scan_prefix s =
    (case s of
       [] \<Rightarrow> (10, NoPrefix, PrevOther, 0, [])
     | ch # rest \<Rightarrow>
        if ch \<noteq> CHR ''0'' then (10, NoPrefix, PrevOther, 0, s)
        else
          (case rest of
             [] \<Rightarrow> (10, NoPrefix, PrevDigit, 1, [])
           | ch2 # rest2 \<Rightarrow>
              if ch2 = CHR ''b'' \<or> ch2 = CHR ''B'' then (2, Prefix_b, PrevDigit, 0, rest2)
              else if ch2 = CHR ''o'' \<or> ch2 = CHR ''O'' then (8, Prefix_o, PrevDigit, 0, rest2)
              else if ch2 = CHR ''x'' \<or> ch2 = CHR ''X'' then (16, Prefix_x, PrevDigit, 0, rest2)
              else (8, Prefix_0, PrevDigit, 0, rest)))"

text \<open>\<open>nat.scan\<close> for base 0: the number or \<open>None\<close> for a syntax error, and the rest.\<close>

definition nat_scan :: "string \<Rightarrow> nat option \<times> string" where
  "nat_scan s =
    (case scan_prefix s of (b, prefix, prev, count, s1) \<Rightarrow>
       (case scan_digits b s1 prev False count 0 of (rest, prev', invalSep, count', z) \<Rightarrow>
          if count' = 0 then
            (if prefix = Prefix_0 then
               (if invalSep \<or> prev' = PrevSep then None else Some 0, rest)
             else (None, rest))
          else (if invalSep \<or> prev' = PrevSep then None else Some z, rest)))"

text \<open>\<open>new(big.Int).SetString(s, 0)\<close>: the number when \<open>ok\<close>, \<open>None\<close> otherwise.\<close>

definition SetString :: "string \<Rightarrow> int option" where
  "SetString s =
    (case s of
       [] \<Rightarrow> None
     | ch # rest \<Rightarrow>
        (let neg = (ch = CHR ''-'');
             s1 = (if ch = CHR ''-'' \<or> ch = CHR ''+'' then rest else s)
         in case nat_scan s1 of
              (None, left) \<Rightarrow> None
            | (Some z, left) \<Rightarrow>
                if left \<noteq> [] then None else Some (if neg then - int z else int z)))"

subsection \<open>Signing service (runtime/kms.go)\<close>

type_synonym PrivateKey = nat
type_synonym PublicKey = "nat \<times> nat"

text \<open>
  The cryptography of the Go library and go-ethereum, as parameters. \<open>crypto_SigToPub\<close>
  is not called by the module: it is the public-key recovery a verifier of an Ethereum
  signature runs.
\<close>

record crypto =
  sha256_Sum256 :: "string \<Rightarrow> byte list"
  crypto_ToECDSA :: "byte list \<Rightarrow> go_error + PrivateKey"
  Public :: "PrivateKey \<Rightarrow> PublicKey"
  crypto_PubkeyToAddress :: "PublicKey \<Rightarrow> byte list"
  Address_Hex :: "byte list \<Rightarrow> string"
  crypto_Sign :: "byte list \<Rightarrow> PrivateKey \<Rightarrow> go_error + byte list"
  crypto_FromECDSAPub :: "PublicKey \<Rightarrow> byte list"
  crypto_SigToPub :: "byte list \<Rightarrow> byte list \<Rightarrow> go_error + PublicKey"

text \<open>The interface \<open>KMSSigner\<close>.\<close>

record KMSSigner =
  Sign :: "string \<Rightarrow> byte list \<Rightarrow> go_error + byte list"
  GetPublicKey :: "string \<Rightarrow> go_error + byte list"

definition derivePrivateKey :: "crypto \<Rightarrow> Config \<Rightarrow> string \<Rightarrow> go_error + PrivateKey" where
  "derivePrivateKey cr config externalID =
    (let seed = WalletMasterKeyARN config @ '':'' @ externalID;
         hash = sha256_Sum256 cr seed
     in case crypto_ToECDSA cr hash of
          Inl err \<Rightarrow> Inl err
        | Inr privateKey \<Rightarrow> Inr privateKey)"

definition MockKMSSigner_Sign ::
  "crypto \<Rightarrow> Config \<Rightarrow> string \<Rightarrow> byte list \<Rightarrow> go_error + byte list" where
  "MockKMSSigner_Sign cr config externalID hash =
    (case derivePrivateKey cr config externalID of
       Inl err \<Rightarrow> Inl (Errorf ''failed to derive private key: %w'' [] (Some err))
     | Inr privateKey \<Rightarrow>
        (case crypto_Sign cr hash privateKey of
           Inl err \<Rightarrow> Inl (Errorf ''failed to sign: %w'' [] (Some err))
         | Inr signature \<Rightarrow> Inr signature))"

definition MockKMSSigner_GetPublicKey ::
  "crypto \<Rightarrow> Config \<Rightarrow> string \<Rightarrow> go_error + byte list" where
  "MockKMSSigner_GetPublicKey cr config externalID =
    (case derivePrivateKey cr config externalID of
       Inl err \<Rightarrow> Inl (Errorf ''failed to derive private key: %w'' [] (Some err))
     | Inr privateKey \<Rightarrow> Inr (crypto_FromECDSAPub cr (Public cr privateKey)))"

definition NewMockKMSSigner :: "crypto \<Rightarrow> Config \<Rightarrow> KMSSigner" where
  "NewMockKMSSigner cr config =
     \<lparr>Sign = MockKMSSigner_Sign cr config, GetPublicKey = MockKMSSigner_GetPublicKey cr config\<rparr>"

definition GetKMSSigner :: "crypto \<Rightarrow> Config \<Rightarrow> KMSSigner" where
  "GetKMSSigner cr config = NewMockKMSSigner cr config"

subsection \<open>Addresses and transactions (runtime/evm_signer.go)\<close>

definition deriveEVMAddress :: "crypto \<Rightarrow> string \<Rightarrow> Config \<Rightarrow> go_error + string" where
  "deriveEVMAddress cr externalID config =
    (let seed = WalletMasterKeyARN config @ '':'' @ externalID;
         hash = sha256_Sum256 cr seed
     in case crypto_ToECDSA cr hash of
          Inl err \<Rightarrow> Inl (Errorf ''failed to derive private key: %w'' [] (Some err))
        | Inr privateKey \<Rightarrow>
            Inr (Address_Hex cr (crypto_PubkeyToAddress cr (Public cr privateKey))))"

record EVMTransactionRequest =
  To :: string
  ValueWei :: string
  Data :: string
  GasLimit :: string
  MaxFeePerGasWei :: string
  MaxPriorityFeePerGasWei :: string
  Nonce :: "64 word"

text \<open>\<open>types.DynamicFeeTx\<close> of go-ethereum, with the fields the module sets.\<close>

record DynamicFeeTx =
  tx_ChainID :: int
  tx_Nonce :: "64 word"
  tx_GasTipCap :: int
  tx_GasFeeCap :: int
  tx_Gas :: "64 word"
  tx_To :: "byte list"
  tx_Value :: int
  tx_Data :: "byte list"

type_synonym SignedTx = "DynamicFeeTx \<times> byte list"

text \<open>
  go-ethereum, as parameters: \<open>common.FromHex\<close>, \<open>common.HexToAddress\<close>, the signing hash
  \<open>types.LatestSignerForChainID(chainID).Hash(tx)\<close>, \<open>tx.WithSignature\<close> and the hash of the
  signed transaction in hex.
\<close>

record eth =
  common_FromHex :: "string \<Rightarrow> byte list"
  common_HexToAddress :: "string \<Rightarrow> byte list"
  Signer_Hash :: "DynamicFeeTx \<Rightarrow> byte list"
  WithSignature :: "DynamicFeeTx \<Rightarrow> byte list \<Rightarrow> go_error + SignedTx"
  Hash_Hex :: "SignedTx \<Rightarrow> string"

text \<open>\<open>gasLimit.Uint64()\<close>: the low 64 bits of the absolute value.\<close>

definition Uint64 :: "int \<Rightarrow> 64 word" where
  "Uint64 x = word_of_nat (nat \<bar>x\<bar>)"

text \<open>
  A call of the signing service leaves a mark: the external identity and the hash it was
  asked to sign. A function that may call it returns the marks of its calls.
\<close>

type_synonym sign_call = "string \<times> byte list"

definition signTransaction ::
  "string \<Rightarrow> byte list \<Rightarrow> Config \<Rightarrow> KMSSigner \<Rightarrow> (go_error + byte list) \<times> sign_call list" where
  "signTransaction externalID hash config kmsSigner =
    (case Sign kmsSigner externalID hash of
       Inl err \<Rightarrow> (Inl (Errorf ''KMS signing failed: %w'' [] (Some err)), [(externalID, hash)])
     | Inr signature \<Rightarrow> (Inr signature, [(externalID, hash)]))"

text \<open>
  \<open>signAndSendEVMTransaction\<close>. It has a parameter \<open>signer\<close> but signs with the
  package-level variable \<open>kmsSigner\<close>, the first argument here. A \<open>big.Int\<close> that
  \<open>SetString\<close> is not called on stays 0.
\<close>

definition signAndSendEVMTransaction ::
  "KMSSigner \<Rightarrow> eth \<Rightarrow> string \<Rightarrow> EVMTransactionRequest \<Rightarrow> Config \<Rightarrow> KMSSigner
     \<Rightarrow> (go_error + string) \<times> sign_call list" where
  "signAndSendEVMTransaction kmsSigner e externalID request config signer =
    (if To request = [] then (Inl (Errorf ''missing 'to' address'' [] None), [])
     else
      (case (if ValueWei request \<noteq> [] then SetString (ValueWei request) else Some 0) of
         None \<Rightarrow> (Inl (Errorf ''invalid value: %s'' [S (ValueWei request)] None), [])
       | Some val \<Rightarrow>
      (case (if GasLimit request \<noteq> [] then SetString (GasLimit request) else Some 0) of
         None \<Rightarrow> (Inl (Errorf ''invalid gas limit: %s'' [S (GasLimit request)] None), [])
       | Some gasLimit \<Rightarrow>
      (case (if MaxFeePerGasWei request \<noteq> [] then SetString (MaxFeePerGasWei request)
             else Some 0) of
         None \<Rightarrow>
           (Inl (Errorf ''invalid max fee per gas: %s'' [S (MaxFeePerGasWei request)] None), [])
       | Some maxFeePerGas \<Rightarrow>
      (case (if MaxPriorityFeePerGasWei request \<noteq> []
             then SetString (MaxPriorityFeePerGasWei request) else Some 0) of
         None \<Rightarrow>
           (Inl (Errorf ''invalid max priority fee per gas: %s''
                   [S (MaxPriorityFeePerGasWei request)] None), [])
       | Some maxPriorityFeePerGas \<Rightarrow>
         (let data = (if Data request \<noteq> [] then common_FromHex e (Data request) else []);
              chainID = 1;
              to = common_HexToAddress e (To request);
              tx = \<lparr>tx_ChainID = chainID, tx_Nonce = Nonce request,
                    tx_GasTipCap = maxPriorityFeePerGas, tx_GasFeeCap = maxFeePerGas,
                    tx_Gas = Uint64 gasLimit, tx_To = to, tx_Value = val, tx_Data = data\<rparr>;
              txHash = Signer_Hash e tx
          in (case signTransaction externalID txHash config kmsSigner of
                (Inl err, calls) \<Rightarrow>
                  (Inl (Errorf ''failed to sign transaction: %w'' [] (Some err)), calls)
              | (Inr signature, calls) \<Rightarrow>
                  (case WithSignature e tx signature of
                     Inl err \<Rightarrow>
                       (Inl (Errorf ''failed to apply signature: %w'' [] (Some err)), calls)
                   | Inr signedTx \<Rightarrow> (Inr (Hash_Hex e signedTx), calls)))))))))"

subsection \<open>The Nakama collaborator\<close>

record Wallet =
  Chain :: string
  Address :: string
  CreatedAt :: int

text \<open>
  The JSON text of a stored value, taken by what \<open>json.Unmarshal\<close> into a wallet makes
  of it: \<open>Marshalled w\<close> is a text that decodes to \<open>w\<close>, as the one \<open>json.Marshal w\<close>
  writes does; \<open>Malformed\<close> is a text that does not decode.
\<close>

datatype json_text = Marshalled Wallet | Malformed string

definition json_Marshal :: "Wallet \<Rightarrow> go_error + json_text" where
  "json_Marshal w = Inr (Marshalled w)"

fun json_Unmarshal :: "json_text \<Rightarrow> go_error + Wallet" where
  "json_Unmarshal (Marshalled w) = Inr w"
| "json_Unmarshal (Malformed s) = Inl (External ''json: cannot unmarshal'')"

text \<open>\<open>runtime.StorageRead\<close>, \<open>runtime.StorageWrite\<close> and the stored object of nakama-common.\<close>

record StorageRead =
  read_Collection :: string
  read_Key :: string
  read_UserID :: string

record StorageWrite =
  write_Collection :: string
  write_Key :: string
  write_UserID :: string
  write_Value :: json_text
  write_PermissionRead :: int
  write_PermissionWrite :: int

record StorageObject =
  Collection :: string
  Key :: string
  UserID :: string
  Value :: json_text
  PermissionRead :: int
  PermissionWrite :: int

text \<open>
  What the module does to the world outside, in order: storage reads, storage writes,
  and address derivations (the calls of \<open>deriveWalletAddress\<close> and \<open>deriveAddress\<close>,
  which stand in for the key-management service).
\<close>

datatype effect =
    StorageReadCall "StorageRead list"
  | StorageWriteCall "StorageWrite list"
  | DeriveCall string

text \<open>
  The Nakama server behind \<open>runtime.NakamaModule\<close>: the stored objects by collection,
  key and user id; whether its storage calls fail; what its account calls answer; and
  the trace of effects so far.
\<close>

record Nakama =
  objects :: "string \<times> string \<times> string \<rightharpoonup> StorageObject"
  StorageRead_fails :: "go_error option"
  StorageWrite_fails :: "go_error option"
  AuthenticateCustom :: "string \<Rightarrow> string \<Rightarrow> bool \<Rightarrow> go_error + string \<times> string \<times> bool"
  AccountUpdateId :: "string \<Rightarrow> (string \<times> json) list \<Rightarrow> go_error option"
  LinkCustom :: "string \<Rightarrow> string \<Rightarrow> go_error option"
  AuthenticateTokenGenerate :: "string \<Rightarrow> string \<Rightarrow> go_error + string"
  AccountGetId :: "string \<Rightarrow> go_error + string"
  trace :: "effect list"

definition found_objects :: "Nakama \<Rightarrow> StorageRead \<Rightarrow> StorageObject option list" where
  "found_objects nk r =
    (case objects nk (read_Collection r, read_Key r, read_UserID r) of
       None \<Rightarrow> []
     | Some obj \<Rightarrow> [Some obj])"

text \<open>\<open>nk.StorageRead\<close>: the objects found (pointers, none of them nil), or the error.\<close>

definition nk_StorageRead ::
  "StorageRead list \<Rightarrow> Nakama \<Rightarrow> (go_error + StorageObject option list) \<times> Nakama" where
  "nk_StorageRead reads nk =
    (let nk' = nk\<lparr>trace := trace nk @ [StorageReadCall reads]\<rparr>
     in case StorageRead_fails nk of
          Some err \<Rightarrow> (Inl err, nk')
        | None \<Rightarrow> (Inr (concat (map (found_objects nk) reads)), nk'))"

fun store_all ::
  "StorageWrite list \<Rightarrow> (string \<times> string \<times> string \<rightharpoonup> StorageObject)
     \<Rightarrow> (string \<times> string \<times> string \<rightharpoonup> StorageObject)" where
  "store_all [] m = m"
| "store_all (w # ws) m =
     store_all ws
       (m((write_Collection w, write_Key w, write_UserID w) \<mapsto>
          \<lparr>Collection = write_Collection w, Key = write_Key w, UserID = write_UserID w,
           Value = write_Value w, PermissionRead = write_PermissionRead w,
           PermissionWrite = write_PermissionWrite w\<rparr>))"

text \<open>\<open>nk.StorageWrite\<close>: the error (\<open>None\<close> for nil); on success the objects are stored.\<close>

definition nk_StorageWrite :: "StorageWrite list \<Rightarrow> Nakama \<Rightarrow> go_error option \<times> Nakama" where
  "nk_StorageWrite writes nk =
    (let nk' = nk\<lparr>trace := trace nk @ [StorageWriteCall writes]\<rparr>
     in case StorageWrite_fails nk of
          Some err \<Rightarrow> (Some err, nk')
        | None \<Rightarrow> (None, nk'\<lparr>objects := store_all writes (objects nk)\<rparr>))"

subsection \<open>Wallets (runtime/wallet.go)\<close>

definition WalletCollection :: string where
  "WalletCollection = ''wallet''"

definition deriveWalletAddress :: "crypto \<Rightarrow> string \<Rightarrow> Config \<Rightarrow> go_error + string" where
  "deriveWalletAddress cr externalID config =
    (if WalletChain config = ''evm'' then deriveEVMAddress cr externalID config
     else if WalletChain config = ''solana'' then Inl (Sentinel ErrInvalidChain)
     else Inl (Sentinel ErrInvalidChain))"

text \<open>The object \<open>ensureWallet\<close> takes for the wallet: \<open>len(objects) > 0 && objects[0] != nil\<close>.\<close>

fun first_object :: "StorageObject option list \<Rightarrow> StorageObject option" where
  "first_object [] = None"
| "first_object (obj # rest) = obj"

text \<open>\<open>time.Now().UnixMilli()\<close>.\<close>

definition UnixMilli :: "time \<Rightarrow> int" where
  "UnixMilli now = now div 1000000"

definition ensureWallet ::
  "crypto \<Rightarrow> time \<Rightarrow> string \<Rightarrow> Config \<Rightarrow> Nakama \<Rightarrow> (go_error + Wallet) \<times> Nakama" where
  "ensureWallet cr now externalID config nk =
    (if \<not> WalletEnabled config then (Inl (Sentinel ErrWalletNotEnabled), nk)
     else
       case nk_StorageRead
              [\<lparr>read_Collection = WalletCollection, read_Key = externalID, read_UserID = []\<rparr>] nk of
         (Inl err, nk1) \<Rightarrow> (Inl err, nk1)
       | (Inr objs, nk1) \<Rightarrow>
          (case first_object objs of
             Some obj \<Rightarrow>
               (case json_Unmarshal (Value obj) of
                  Inl err \<Rightarrow> (Inl err, nk1)
                | Inr wallet \<Rightarrow> (Inr wallet, nk1))
           | None \<Rightarrow>
               (let nk2 = nk1\<lparr>trace := trace nk1 @ [DeriveCall externalID]\<rparr>
                in case deriveWalletAddress cr externalID config of
                     Inl err \<Rightarrow> (Inl err, nk2)
                   | Inr address \<Rightarrow>
                      (let wallet = \<lparr>Chain = WalletChain config, Address = address,
                                      CreatedAt = UnixMilli now\<rparr>
                       in case json_Marshal wallet of
                            Inl err \<Rightarrow> (Inl err, nk2)
                          | Inr walletData \<Rightarrow>
                             (case nk_StorageWrite
                                     [\<lparr>write_Collection = WalletCollection,
                                       write_Key = externalID, write_UserID = [],
                                       write_Value = walletData, write_PermissionRead = 1,
                                       write_PermissionWrite = 0\<rparr>] nk2 of
                                (Some err, nk3) \<Rightarrow> (Inl err, nk3)
                              | (None, nk3) \<Rightarrow> (Inr wallet, nk3))))))"

definition getWallet :: "string \<Rightarrow> Nakama \<Rightarrow> (go_error + Wallet) \<times> Nakama" where
  "getWallet externalID nk =
    (case nk_StorageRead
            [\<lparr>read_Collection = WalletCollection, read_Key = externalID, read_UserID = []\<rparr>] nk of
       (Inl err, nk1) \<Rightarrow> (Inl err, nk1)
     | (Inr objs, nk1) \<Rightarrow>
        (case first_object objs of
           None \<Rightarrow> (Inl (Sentinel ErrWalletNotFound), nk1)
         | Some obj \<Rightarrow>
            (case json_Unmarshal (Value obj) of
               Inl err \<Rightarrow> (Inl err, nk1)
             | Inr wallet \<Rightarrow> (Inr wallet, nk1))))"

subsection \<open>The login and link calls (runtime/main.go, runtime/types.go)\<close>

record LoginRequest =
  IDToken :: string
  Create :: bool
  Username :: string

record LinkRequest =
  link_IDToken :: string

record WalletInfo =
  info_Address :: string
  info_Chain :: string

record LoginResponse =
  Token :: string
  login_Wallet :: "WalletInfo option"


text \<open>
  What the runtime module gets from the host and its libraries: \<open>FromJSON\<close> on each
  request type, and \<open>jwt.ParseWithClaims\<close> with the key function of the keyfunc library.
  \<open>ToJSON\<close> of a response cannot fail and is left out: a call returns the response itself,
  whose wallet field (a pointer with \<open>omitempty\<close>) is written only when it is \<open>Some\<close>.
\<close>

record host =
  FromJSON_LoginRequest :: "string \<Rightarrow> go_error + LoginRequest"
  FromJSON_LinkRequest :: "string \<Rightarrow> go_error + LinkRequest"
  FromJSON_EVMTransactionRequest :: "string \<Rightarrow> go_error + EVMTransactionRequest"
  jwt_ParseWithClaims :: "string \<Rightarrow> go_error + jwt_Token"



text \<open>The test \<open>rpcSignAndSend\<close> makes on the custom id of the account.\<close>

definition is_cognito_id :: "string \<Rightarrow> bool" where
  "is_cognito_id customId =
     (customId \<noteq> [] \<and> length customId > 8 \<and> take 8 customId = ''cognito:'')"

definition rpcSignAndSend ::
  "host \<Rightarrow> eth \<Rightarrow> KMSSigner \<Rightarrow> Config \<Rightarrow> string option \<Rightarrow> string \<Rightarrow> Nakama
     \<Rightarrow> (go_error + string) \<times> sign_call list" where
  "rpcSignAndSend h e kmsSigner config ctxUserID payload nk =
    (if \<not> WalletEnabled config then (Inl (Sentinel ErrWalletNotEnabled), [])
     else case ctxUserID of
       None \<Rightarrow> (Inl (NewAuthError ''UNAUTHORIZED'' ''User session required'' None), [])
     | Some userID \<Rightarrow>
        if userID = [] then
          (Inl (NewAuthError ''UNAUTHORIZED'' ''User session required'' None), [])
        else
          (case AccountGetId nk userID of
             Inl err \<Rightarrow> (Inl err, [])
           | Inr customId \<Rightarrow>
              if \<not> is_cognito_id customId then (Inl (Sentinel ErrAuthFailed), [])
              else
                (case FromJSON_EVMTransactionRequest h payload of
                   Inl err \<Rightarrow>
                     (Inl (NewAuthError ''INVALID_PAYLOAD''
                             ''Failed to parse transaction request'' (Some err)), [])
                 | Inr txRequest \<Rightarrow>
                    (case signAndSendEVMTransaction kmsSigner e customId txRequest config
                            kmsSigner of
                       (Inl err, calls) \<Rightarrow> (Inl err, calls)
                     | (Inr txHash, calls) \<Rightarrow> (Inr txHash, calls)))))"

subsection \<open>Wallets (cognito_module/wallet.go)\<close>

text \<open>
  \<open>WalletRecord\<close> has the fields and the JSON names of the runtime module's \<open>Wallet\<close>: it
  is the same record here.
\<close>

type_synonym WalletRecord = Wallet

definition walletCollection :: string where
  "walletCollection = ''wallet''"

definition hex_digit :: "nat \<Rightarrow> char" where
  "hex_digit n = ''0123456789abcdef'' ! (n mod 16)"

fun hex_EncodeToString :: "byte list \<Rightarrow> string" where
  "hex_EncodeToString [] = []"
| "hex_EncodeToString (b # bs) =
     hex_digit (unat b div 16) # hex_digit (unat b mod 16) # hex_EncodeToString bs"

text \<open>\<open>deriveAddress\<close>; \<open>sha256.Sum256\<close> is the parameter (32 bytes, so both slices exist).\<close>

definition deriveAddress :: "crypto \<Rightarrow> string \<Rightarrow> string \<Rightarrow> go_error + string" where
  "deriveAddress cr externalID chain =
    (let hash = sha256_Sum256 cr externalID
     in if chain = ''evm'' then Inr (''0x'' @ hex_EncodeToString (take 20 hash))
        else if chain = ''solana'' then Inr (hex_EncodeToString (take 32 hash))
        else Inl (Errorf ''unsupported chain: %s'' [S chain] None))"

text \<open>\<open>readWallet\<close>; \<open>objects[0].Value\<close> would panic on a nil pointer.\<close>

definition readWallet :: "string \<Rightarrow> Nakama \<Rightarrow> (go_error + WalletRecord) \<times> Nakama" where
  "readWallet externalID nk =
    (case nk_StorageRead
            [\<lparr>read_Collection = walletCollection, read_Key = externalID, read_UserID = []\<rparr>] nk of
       (Inl err, nk1) \<Rightarrow> (Inl (Errorf ''storage read failed: %w'' [] (Some err)), nk1)
     | (Inr objs, nk1) \<Rightarrow>
        (case objs of
           [] \<Rightarrow> (Inl (Errorf ''wallet not found'' [] None), nk1)
         | None # rest \<Rightarrow> (Inl (Panic ''nil pointer dereference''), nk1)
         | Some obj # rest \<Rightarrow>
            (case json_Unmarshal (Value obj) of
               Inl err \<Rightarrow> (Inl (Errorf ''failed to unmarshal wallet: %w'' [] (Some err)), nk1)
             | Inr wallet \<Rightarrow> (Inr wallet, nk1))))"

definition writeWallet :: "string \<Rightarrow> WalletRecord \<Rightarrow> Nakama \<Rightarrow> go_error option \<times> Nakama" where
  "writeWallet externalID wallet nk =
    (case json_Marshal wallet of
       Inl err \<Rightarrow> (Some (Errorf ''failed to marshal wallet: %w'' [] (Some err)), nk)
     | Inr walletBytes \<Rightarrow>
        (case nk_StorageWrite
                [\<lparr>write_Collection = walletCollection, write_Key = externalID,
                  write_UserID = [], write_Value = walletBytes, write_PermissionRead = 0,
                  write_PermissionWrite = 0\<rparr>] nk of
           (Some err, nk1) \<Rightarrow> (Some (Errorf ''storage write failed: %w'' [] (Some err)), nk1)
         | (None, nk1) \<Rightarrow> (None, nk1)))"

fun is_Panic :: "go_error \<Rightarrow> bool" where
  "is_Panic (Panic m) = True"
| "is_Panic e = False"

text \<open>
  \<open>ensureWallet\<close> of cognito_module. Any error of \<open>readWallet\<close> sends it on to create the
  wallet (a panic is not an error value: it unwinds).
\<close>

definition ensureWallet_cm ::
  "crypto \<Rightarrow> time \<Rightarrow> string \<Rightarrow> string \<Rightarrow> Nakama \<Rightarrow> (go_error + WalletRecord) \<times> Nakama" where
  "ensureWallet_cm cr now externalID chain nk =
    (case readWallet externalID nk of
       (Inr wallet, nk1) \<Rightarrow> (Inr wallet, nk1)
     | (Inl err, nk1) \<Rightarrow>
        if is_Panic err then (Inl err, nk1)
        else
          (let nk2 = nk1\<lparr>trace := trace nk1 @ [DeriveCall externalID]\<rparr>
           in case deriveAddress cr externalID chain of
                Inl err \<Rightarrow> (Inl (Errorf ''failed to derive address: %w'' [] (Some err)), nk2)
              | Inr address \<Rightarrow>
                 (let wallet = \<lparr>Chain = chain, Address = address, CreatedAt = Unix now\<rparr>
                  in case writeWallet externalID wallet nk2 of
                       (Some err, nk3) \<Rightarrow>
                         (Inl (Errorf ''failed to write wallet: %w'' [] (Some err)), nk3)
                     | (None, nk3) \<Rightarrow> (Inr wallet, nk3))))"

subsection \<open>The login and link calls (cognito_module/main.go)\<close>

record LoginRequest_cm =
  IDToken_cm :: string
  Create_cm :: "bool option"
  Username_cm :: string

record WalletSummary =
  summary_Address :: string
  summary_Chain :: string


text \<open>\<open>json.Unmarshal\<close> of the payloads of cognito_module. \<open>json.Marshal\<close> of a response
  cannot fail and is left out.\<close>

record payloads =
  json_Unmarshal_LoginRequest :: "string \<Rightarrow> go_error + LoginRequest_cm"
  json_Unmarshal_LinkRequest :: "string \<Rightarrow> go_error + LinkRequest"

text \<open>The metadata \<open>updateUserMetadata\<close> collects from the claims, one pair per key.\<close>

definition claim_metadata :: "(string \<rightharpoonup> json) \<Rightarrow> (string \<times> json) list" where
  "claim_metadata claims =
    (case claims ''email'' of Some (JString email) \<Rightarrow> [(''email'', JString email)] | _ \<Rightarrow> [])
    @ (case claims ''email_verified'' of
         Some (JBool emailVerified) \<Rightarrow> [(''email_verified'', JBool emailVerified)] | _ \<Rightarrow> [])
    @ (case claims ''name'' of Some (JString name) \<Rightarrow> [(''name'', JString name)] | _ \<Rightarrow> [])
    @ (case claims ''picture'' of
         Some (JString picture) \<Rightarrow> [(''picture'', JString picture)] | _ \<Rightarrow> [])
    @ (case claims ''identities'' of
         Some (JArray (JObject identity # rest)) \<Rightarrow>
           (case map_of identity ''providerName'' of
              Some (JString providerName) \<Rightarrow> [(''provider'', JString providerName)]
            | _ \<Rightarrow> [])
       | _ \<Rightarrow> [])"

definition updateUserMetadata :: "Nakama \<Rightarrow> string \<Rightarrow> (string \<rightharpoonup> json) \<Rightarrow> go_error option" where
  "updateUserMetadata nk userID claims =
    (let metadata = claim_metadata claims
     in if length metadata > 0 then AccountUpdateId nk userID metadata else None)"



definition rpcLinkCognito_cm ::
  "payloads \<Rightarrow> lib \<Rightarrow> crypto \<Rightarrow> time \<Rightarrow> CognitoConfig \<Rightarrow> string option \<Rightarrow> string \<Rightarrow> JWKSCache
     \<Rightarrow> Nakama \<Rightarrow> (go_error + WalletSummary) \<times> JWKSCache \<times> Nakama" where
  "rpcLinkCognito_cm p l cr now config ctxUserID payload c nk =
    (case ctxUserID of
       None \<Rightarrow>
         (Inl (Errorf ''user must be authenticated to link Cognito account'' [] None), c, nk)
     | Some userID \<Rightarrow>
        if userID = [] then
          (Inl (Errorf ''user must be authenticated to link Cognito account'' [] None), c, nk)
        else
          (case json_Unmarshal_LinkRequest p payload of
             Inl err \<Rightarrow> (Inl (Errorf ''invalid request payload: %w'' [] (Some err)), c, nk)
           | Inr req \<Rightarrow>
              if link_IDToken req = [] then
                (Inl (Errorf ''id_token is required'' [] None), c, nk)
              else
                (case verifyCognitoIDToken l now config (link_IDToken req) c of
                   (Inl err, c') \<Rightarrow>
                     (Inl (Errorf ''token verification failed: %w'' [] (Some err)), c', nk)
                 | (Inr claims, c') \<Rightarrow>
                    (case as_string (claims ''sub'') of (sub, ok) \<Rightarrow>
                       if \<not> ok \<or> sub = [] then
                         (Inl (Errorf (''missing or invalid '' @ [CHR 0x27] @ ''sub''
                                 @ [CHR 0x27] @ '' claim in token'') [] None), c', nk)
                       else
                         (let externalID = ''cognito:'' @ sub
                          in case LinkCustom nk userID externalID of
                               Some err \<Rightarrow>
                                 (Inl (Errorf ''failed to link custom ID: %w'' [] (Some err)),
                                  c', nk)
                             | None \<Rightarrow>
                                (let logged = updateUserMetadata nk userID claims
                                 in case ensureWallet_cm cr now externalID
                                           (WalletChain_cm config) nk of
                                      (Inl err, nk') \<Rightarrow>
                                        (Inl (Errorf ''failed to ensure wallet: %w'' []
                                                (Some err)), c', nk')
                                    | (Inr wallet, nk') \<Rightarrow>
                                        (Inr \<lparr>summary_Address = Address wallet,
                                              summary_Chain = Chain wallet\<rparr>, c', nk')))))))"

subsection \<open>Notions the properties are stated with\<close>

text \<open>
  The keys a key-set document yields: its entries of type RSA that convert, in the
  order of the document, each under its key id (the conditions of the loop of
  \<open>fetchJWKS\<close>).
\<close>

definition parsed_keys :: "lib \<Rightarrow> JWK list \<Rightarrow> (string \<times> rsa_PublicKey) list" where
  "parsed_keys l keys =
     concat (map (\<lambda>jwk. if Kty jwk = ''RSA''
                         then (case jwkToRSAPublicKey l jwk of
                                 Inl err \<Rightarrow> [] | Inr key \<Rightarrow> [(Kid jwk, key)])
                         else []) keys)"

text \<open>A numeric field that is given and that \<open>SetString(s, 0)\<close> does not accept.\<close>

definition unparsable :: "string \<Rightarrow> bool" where
  "unparsable s = (s \<noteq> [] \<and> SetString s = None)"

text \<open>The mark a read of the wallet of an external identity leaves in the trace.\<close>

definition wallet_read :: "string \<Rightarrow> effect" where
  "wallet_read externalID =
     StorageReadCall [\<lparr>read_Collection = ''wallet'', read_Key = externalID, read_UserID = []\<rparr>]"

subsection \<open>Example inputs\<close>

text \<open>
  Concrete inputs for the closed theorems below: the configuration and token of the
  first example scenario, a cache that already holds the token's key, and stand-ins for
  the collaborators. \<open>example_crypto\<close> and \<open>example_crypto_seeded\<close> are toy instances of
  the cryptographic parameters (not a hash, not a curve): they only show that hypotheses
  can be met.
\<close>

definition example_now :: time where
  "example_now = 1700000000 * 1000000000"

definition example_config :: Config where
  "example_config =
     \<lparr>CognitoIssuer = ''https://idp.example/pool1'', CognitoAudience = ''client-abc'',
      JWKSCacheTTL = 3600, WalletEnabled = True, WalletChain = ''evm'',
      WalletMasterKeyARN = ''arn:aws:kms:key/1'', WalletDerivationPath = ''m/44/60/0/0''\<rparr>"

definition example_claims :: "time \<Rightarrow> CognitoTokenClaims" where
  "example_claims expiresAt =
     \<lparr>Issuer = ''https://idp.example/pool1'', Subject = ''user-42'',
      Audience = [''client-abc''], ExpiresAt = Some expiresAt, NotBefore = None,
      TokenUse = ''id'',
      Email = [], EmailVerified = False, Name = [], Picture = [], CognitoGroups = []\<rparr>"

definition example_parsed :: "CognitoTokenClaims \<Rightarrow> jwt_Token" where
  "example_parsed claims =
     \<lparr>Method = SigningMethodRSA, Header = [''alg'' \<mapsto> JString ''RS256'', ''kid'' \<mapsto> JString ''k1''],
      Claims = TypedClaims claims, Valid = True\<rparr>"


definition example_config_cm :: CognitoConfig where
  "example_config_cm =
     \<lparr>Issuer_cm = ''https://idp.example/pool1'', Audience_cm = ''client-abc'',
      JWKSCacheTTL_cm = 3600, WalletChain_cm = ''evm'', WalletMasterKeyARN_cm = [],
      WalletDerivePath_cm = ''m/44/60/0/0''\<rparr>"

definition example_key :: rsa_PublicKey where
  "example_key = \<lparr>rsa_N = 3233, rsa_E = 17\<rparr>"

text \<open>A cache that holds the key \<open>k1\<close>, fetched one second before \<open>example_now\<close>.\<close>

definition example_cache :: JWKSCache where
  "example_cache =
     \<lparr>issuer = ''https://idp.example/pool1'',
      jwksURL = ''https://idp.example/pool1/.well-known/jwks.json'',
      cache = [''k1'' \<mapsto> example_key], ttl = 3600 * 1000000000,
      lastFetch = 1699999999 * 1000000000\<rparr>"

text \<open>A token signed with \<open>example_key\<close>, with the key id and the audience claim given.\<close>

definition example_token :: "string option \<Rightarrow> json \<Rightarrow> unverified_token" where
  "example_token kid aud =
     \<lparr>decoded =
        \<lparr>Method = SigningMethodRSA,
         Header = (case kid of None \<Rightarrow> [''alg'' \<mapsto> JString ''RS256'']
                   | Some k \<Rightarrow> [''alg'' \<mapsto> JString ''RS256'', ''kid'' \<mapsto> JString k]),
         Claims = MapClaims [''iss'' \<mapsto> JString ''https://idp.example/pool1'', ''aud'' \<mapsto> aud,
                     ''token_use'' \<mapsto> JString ''id'', ''exp'' \<mapsto> JNumber 1700003600,
                     ''sub'' \<mapsto> JString ''user-42''],
         Valid = False\<rparr>,
      signature_ok = (\<lambda>key. key = example_key)\<rparr>"

text \<open>The same token, for the key \<open>k1\<close> and the audience \<open>client-abc\<close>, with the \<open>exp\<close> given.\<close>

definition example_token_exp :: "rat \<Rightarrow> unverified_token" where
  "example_token_exp expiry =
     \<lparr>decoded =
        \<lparr>Method = SigningMethodRSA,
         Header = [''alg'' \<mapsto> JString ''RS256'', ''kid'' \<mapsto> JString ''k1''],
         Claims = MapClaims [''iss'' \<mapsto> JString ''https://idp.example/pool1'',
                     ''aud'' \<mapsto> JString ''client-abc'', ''token_use'' \<mapsto> JString ''id'',
                     ''exp'' \<mapsto> JNumber expiry, ''sub'' \<mapsto> JString ''user-42''],
         Valid = False\<rparr>,
      signature_ok = (\<lambda>key. key = example_key)\<rparr>"

text \<open>
  A token of the runtime module as the library decodes it, before it is verified: signed
  with \<open>example_key\<close>, with the claims given. And a key function that finds
  \<open>example_key\<close> for every token, as the key set of the runtime module does when it holds
  the key.
\<close>

definition example_typed_token :: "CognitoTokenClaims \<Rightarrow> unverified_token" where
  "example_typed_token claims =
     \<lparr>decoded = (example_parsed claims)\<lparr>Valid := False\<rparr>,
      signature_ok = (\<lambda>key. key = example_key)\<rparr>"

definition example_keyfunc :: "jwt_Token \<Rightarrow> unit \<Rightarrow> (go_error + rsa_PublicKey) \<times> unit" where
  "example_keyfunc token s = (Inr example_key, s)"

text \<open>Libraries that decode every token string to \<open>u\<close>, behind a network that is down.\<close>

definition example_lib :: "unverified_token \<Rightarrow> lib" where
  "example_lib u =
     \<lparr>http_Get = (\<lambda>url. Inl (External ''dial tcp: i/o timeout'')),
      json_Unmarshal_JWKS = (\<lambda>body. Inl (External ''unexpected end of JSON input'')),
      base64_DecodeString = (\<lambda>s. Inl (External ''illegal base64 data'')),
      jwt_ParseUnverified = (\<lambda>tokenString. Inr u)\<rparr>"

text \<open>Libraries behind a network that serves a key set with the one RSA key \<open>k2\<close>.\<close>

definition example_lib_up :: lib where
  "example_lib_up =
     \<lparr>http_Get = (\<lambda>url. Inr \<lparr>StatusCode = 200, Body = Inr ''jwks-document''\<rparr>),
      json_Unmarshal_JWKS =
        (\<lambda>body. Inr [\<lparr>Kid = ''k2'', Kty = ''RSA'', Alg = ''RS256'', Use = ''sig'',
                        N = ''DKE'', E = ''AQAB''\<rparr>]),
      base64_DecodeString = (\<lambda>s. if s = ''AQAB'' then Inr [1, 0, 1] else Inr [12, 161]),
      jwt_ParseUnverified = (\<lambda>tokenString. Inl (JwtError ErrTokenMalformed None))\<rparr>"


definition example_crypto :: crypto where
  "example_crypto =
     \<lparr>sha256_Sum256 = (\<lambda>s. [word_of_nat (length s)]),
      crypto_ToECDSA = (\<lambda>bs. Inr (length bs + 6)),
      Public = (\<lambda>d. (d, d + 1)),
      crypto_PubkeyToAddress = (\<lambda>(x, y). [word_of_nat x, word_of_nat y]),
      Address_Hex = (\<lambda>bs. ''0x'' @ hex_EncodeToString bs),
      crypto_Sign = (\<lambda>h d. Inr (replicate d 1)),
      crypto_FromECDSAPub = (\<lambda>(x, y). [4, word_of_nat x, word_of_nat y]),
      crypto_SigToPub = (\<lambda>h sg. Inr (length sg, length sg + 1))\<rparr>"

text \<open>
  A second toy instance, whose keys depend on the seed: the hash is a checksum of the
  seed in one byte, the private key is that number, a signature is the hash followed by
  the key, and recovery reads the key back from the last byte.
\<close>

definition example_checksum :: "string \<Rightarrow> nat" where
  "example_checksum seed = foldl (\<lambda>acc ch. (acc * 31 + of_char ch) mod 251) 7 seed"

definition example_crypto_seeded :: crypto where
  "example_crypto_seeded =
     \<lparr>sha256_Sum256 = (\<lambda>seed. [word_of_nat (example_checksum seed)]),
      crypto_ToECDSA = (\<lambda>bs. Inr (SetBytes bs 0)),
      Public = (\<lambda>d. (d, d + 1)),
      crypto_PubkeyToAddress = (\<lambda>(x, y). [word_of_nat x, word_of_nat y]),
      Address_Hex = (\<lambda>bs. ''0x'' @ hex_EncodeToString bs),
      crypto_Sign =
        (\<lambda>h d. if d < 256 then Inr (h @ [word_of_nat d])
               else Inl (External ''invalid private key'')),
      crypto_FromECDSAPub = (\<lambda>(x, y). [4, word_of_nat x, word_of_nat y]),
      crypto_SigToPub =
        (\<lambda>h sg. if sg = [] then Inl (External ''invalid signature length'')
                else Inr (unat (last sg), unat (last sg) + 1))\<rparr>"

definition example_eth :: eth where
  "example_eth =
     \<lparr>common_FromHex = (\<lambda>s. []), common_HexToAddress = (\<lambda>s. [171, 192]),
      Signer_Hash = (\<lambda>tx. [1, 2, 3]), WithSignature = (\<lambda>tx signature. Inr (tx, signature)),
      Hash_Hex = (\<lambda>signedTx. ''0x5e5e'')\<rparr>"

definition example_signer :: KMSSigner where
  "example_signer =
     \<lparr>Sign = (\<lambda>externalID hash. Inr (hash @ [27])), GetPublicKey = (\<lambda>externalID. Inr [4])\<rparr>"

definition example_wallet :: Wallet where
  "example_wallet = \<lparr>Chain = ''evm'', Address = ''0x00a1'', CreatedAt = 1690000000000\<rparr>"

definition example_object :: StorageObject where
  "example_object =
     \<lparr>Collection = ''wallet'', Key = ''cognito:user-42'', UserID = [],
      Value = Marshalled example_wallet, PermissionRead = 1, PermissionWrite = 0\<rparr>"

text \<open>A Nakama server with the stored objects given, whose calls all succeed.\<close>

definition example_nk :: "(string \<times> string \<times> string \<rightharpoonup> StorageObject) \<Rightarrow> Nakama" where
  "example_nk objs =
     \<lparr>objects = objs, StorageRead_fails = None, StorageWrite_fails = None,
      AuthenticateCustom = (\<lambda>externalID username create. Inr (''session-1'', ''uid-1'', False)),
      AccountUpdateId = (\<lambda>userID metadata. None),
      LinkCustom = (\<lambda>userID externalID. None),
      AuthenticateTokenGenerate = (\<lambda>userID username. Inr ''token-1''),
      AccountGetId = (\<lambda>userID. Inr ''cognito:user-42''),
      trace = []\<rparr>"

section \<open>Properties\<close>

lemma map_of_map_put: "map_of (map_put k v m) = (map_of m)(k \<mapsto> v)"
  by (induction m) (auto simp: fun_eq_iff)

lemma validAudience_iff: "validAudience expected auds \<longleftrightarrow> expected \<in> set auds"
  by (induction auds) auto

subsection \<open>The audience check (C1)\<close>

text \<open>
  The runtime module accepts the configured audience at any position of the list: once
  the token is parsed and its issuer is right, verification stops at the audience check
  exactly when no entry equals the configured audience.
\<close>

lemma VerifyCognitoIDToken_audience:
  assumes "Valid token" and "Claims token = TypedClaims claims"
    and "Issuer claims = CognitoIssuer config"
  shows "VerifyCognitoIDToken config now (Inr token)
           = Inl (NewAuthError ''INVALID_AUDIENCE''
                    (''Expected audience '' @ CognitoAudience config)
                    (Some (Sentinel ErrInvalidAudience)))
         \<longleftrightarrow> CognitoAudience config \<notin> set (Audience claims)"
  using assms
  by (auto simp add: VerifyCognitoIDToken_def NewAuthError_def validAudience_iff
        split: option.splits)

text \<open>
  cognito_module compares the first entry of an audience array only: the rest of the
  array never reaches the comparison.
\<close>

lemma token_aud_first_entry:
  "claims ''aud'' = Some (JArray (JString a # rest)) \<Longrightarrow> token_aud claims = a"
  by (simp add: token_aud_def)

text \<open>
  C1 fails in cognito_module. The token of the first example scenario, signed with a
  cached key, with the audience list \<open>[other-client, client-abc]\<close>: the configured
  audience \<open>client-abc\<close> is in the list, and \<open>verifyCognitoIDToken\<close> rejects the token
  for its audience.
\<close>

theorem verifyCognitoIDToken_audience_second_entry:
  "fst (verifyCognitoIDToken
          (example_lib (example_token (Some ''k1'')
             (JArray [JString ''other-client'', JString ''client-abc''])))
          example_now example_config_cm ''id-token-1'' example_cache)
   = Inl (Errorf ''invalid audience: expected %s, got %s''
            [S ''client-abc'', S ''other-client''] None)"
  by (simp add: verifyCognitoIDToken_def jwt_Parse_def keyfunc_def GetKey_def time_Since_def
        check_claims_def token_aud_def example_lib_def example_token_def example_cache_def
        example_now_def example_config_cm_def example_key_def Validate_def
        verifyExpiresAt_def verifyNotBefore_def newNumericDateFromSeconds_def)

text \<open>The same token with the two entries swapped is accepted.\<close>

lemma verifyCognitoIDToken_audience_first_entry:
  "fst (verifyCognitoIDToken
          (example_lib (example_token (Some ''k1'')
             (JArray [JString ''client-abc'', JString ''other-client''])))
          example_now example_config_cm ''id-token-1'' example_cache)
   = Inr [''iss'' \<mapsto> JString ''https://idp.example/pool1'',
          ''aud'' \<mapsto> JArray [JString ''client-abc'', JString ''other-client''],
          ''token_use'' \<mapsto> JString ''id'', ''exp'' \<mapsto> JNumber 1700003600,
          ''sub'' \<mapsto> JString ''user-42'']"
  by (simp add: verifyCognitoIDToken_def jwt_Parse_def keyfunc_def GetKey_def time_Since_def
        check_claims_def token_aud_def example_lib_def example_token_def example_cache_def
        example_now_def example_config_cm_def example_key_def Unix_def int64_of_float_def
        Validate_def verifyExpiresAt_def verifyNotBefore_def newNumericDateFromSeconds_def)

subsection \<open>Expiry (C2)\<close>

text \<open>
  In the runtime module a parsed token that passes the issuer, audience and token-use
  checks is refused as expired when its expiry lies before the time of the check.
\<close>

lemma VerifyCognitoIDToken_expired:
  assumes "Valid token" and "Claims token = TypedClaims claims"
    and "Issuer claims = CognitoIssuer config"
    and "CognitoAudience config \<in> set (Audience claims)" and "TokenUse claims = ''id''"
    and "ExpiresAt claims = Some expiresAt" and "expiresAt < now"
  shows "VerifyCognitoIDToken config now (Inr token)
           = Inl (AuthError ''TOKEN_EXPIRED'' ''Token has expired''
                    (Some (Sentinel ErrTokenExpired)))"
  using assms by (simp add: VerifyCognitoIDToken_def NewAuthError_def validAudience_iff)

text \<open>A token the runtime module accepts does not expire before the time of the check.\<close>

lemma VerifyCognitoIDToken_accepts_unexpired:
  assumes "VerifyCognitoIDToken config now parsed = Inr claims"
  shows "\<exists>expiresAt. ExpiresAt claims = Some expiresAt \<and> now \<le> expiresAt"
  using assms
  by (auto simp add: VerifyCognitoIDToken_def NewAuthError_def
        split: sum.splits if_splits jwt_claims.splits option.splits)

text \<open>
  cognito_module is strict: claims that pass its checks have an \<open>exp\<close> whose whole
  seconds lie after the second of the check, and claims that pass the earlier checks
  with an \<open>exp\<close> at or before it are refused as expired.
\<close>

lemma check_claims_accepts_future:
  assumes "check_claims config now claims = Inr claims'"
  shows "\<exists>expiry. claims ''exp'' = Some (JNumber expiry) \<and> Unix now < int64_of_float expiry"
  using assms
  by (auto simp add: check_claims_def split: prod.splits if_splits option.splits json.splits)

lemma check_claims_expired:
  assumes "claims ''iss'' = Some (JString (Issuer_cm config))"
    and "token_aud claims = Audience_cm config"
    and "claims ''token_use'' = Some (JString ''id'')"
    and "claims ''exp'' = Some (JNumber expiry)" and "int64_of_float expiry \<le> Unix now"
  shows "check_claims config now claims = Inl (Errorf ''token has expired'' [] None)"
  using assms by (simp add: check_claims_def)

text \<open>
  Both modules hand the token to the library first. A token the library returns has passed
  its validator at the time of the call.
\<close>

lemma jwt_Parse_Inr:
  assumes "fst (jwt_Parse now unverified keyFunc s) = Inr token"
  shows "\<exists>u. unverified = Inr u \<and> token = (decoded u)\<lparr>Valid := True\<rparr>
           \<and> Validate now (Claims (decoded u)) = []"
  using assms
  by (auto simp add: jwt_Parse_def split: sum.splits prod.splits if_splits)

text \<open>
  The validator lets a token with an \<open>exp\<close> pass only if the time lies before it; when the
  \<open>exp\<close> is at or before the time, \<open>jwt.ErrTokenExpired\<close> is the first of its errors. In
  map claims an \<open>exp\<close> that is the number 0 counts as absent.
\<close>

lemma Validate_typed_expiry:
  assumes "Validate now (TypedClaims c) = []" and "ExpiresAt c = Some expiresAt"
  shows "now < expiresAt"
  using assms by (simp add: Validate_def verifyExpiresAt_def split: if_splits)

lemma Validate_typed_expired:
  assumes "ExpiresAt c = Some expiresAt" and "expiresAt \<le> now"
  shows "Validate now (TypedClaims c) = jwt_ErrTokenExpired # verifyNotBefore (TypedClaims c) now"
  using assms by (simp add: Validate_def verifyExpiresAt_def)

lemma Validate_map_expiry:
  assumes "Validate now (MapClaims m) = []" and "m ''exp'' = Some (JNumber f)"
  shows "f = 0 \<or> now < \<lfloor>f\<rfloor> * 1000000000"
  using assms
  by (simp add: Validate_def verifyExpiresAt_def newNumericDateFromSeconds_def split: if_splits)

lemma Validate_map_expired:
  assumes "m ''exp'' = Some (JNumber f)" and "f \<noteq> 0" and "\<lfloor>f\<rfloor> * 1000000000 \<le> now"
  shows "Validate now (MapClaims m) = jwt_ErrTokenExpired # verifyNotBefore (MapClaims m) now"
  using assms
  by (simp add: Validate_def verifyExpiresAt_def newNumericDateFromSeconds_def)

text \<open>The instant of a number of seconds against a time in nanoseconds.\<close>

lemma floor_seconds_le:
  fixes f :: rat
  assumes "f * 1000000000 \<le> of_int now"
  shows "\<lfloor>f\<rfloor> * 1000000000 \<le> now"
proof -
  have "of_int \<lfloor>f\<rfloor> * (1000000000::rat) \<le> f * 1000000000"
    by (simp add: of_int_floor_le)
  from this assms have "of_int \<lfloor>f\<rfloor> * (1000000000::rat) \<le> of_int now"
    by (rule order_trans)
  then have "(of_int (\<lfloor>f\<rfloor> * 1000000000) :: rat) \<le> of_int now" by simp
  then show ?thesis by (simp only: of_int_le_iff)
qed

lemma floor_seconds_less:
  fixes f :: rat
  assumes "now < \<lfloor>f\<rfloor> * 1000000000"
  shows "of_int now < f * 1000000000"
proof -
  from assms have "(of_int now :: rat) < of_int (\<lfloor>f\<rfloor> * 1000000000)"
    by (simp only: of_int_less_iff)
  also have "\<dots> \<le> f * 1000000000" by (simp add: of_int_floor_le)
  finally show ?thesis .
qed

text \<open>
  A token the runtime module accepts expires after the time of the library's check, and
  not before the time of the module's own.
\<close>

lemma VerifyCognitoIDToken_after_parse:
  assumes "VerifyCognitoIDToken config now' (fst (jwt_Parse now unverified keyFunc s)) = Inr claims"
  shows "\<exists>expiresAt. ExpiresAt claims = Some expiresAt \<and> now < expiresAt \<and> now' \<le> expiresAt"
proof -
  from assms obtain token where t: "fst (jwt_Parse now unverified keyFunc s) = Inr token"
    by (cases "fst (jwt_Parse now unverified keyFunc s)")
       (simp_all add: VerifyCognitoIDToken_def NewAuthError_def)
  then obtain u :: unverified_token where u: "token = (decoded u)\<lparr>Valid := True\<rparr>"
    and v: "Validate now (Claims (decoded u)) = []"
    using jwt_Parse_Inr [OF t] by blast
  from assms t have c: "Claims token = TypedClaims claims"
    by (auto simp add: VerifyCognitoIDToken_def NewAuthError_def
         split: if_splits jwt_claims.splits option.splits)
  from assms t obtain e where e: "ExpiresAt claims = Some e" "now' \<le> e"
    by (auto simp add: VerifyCognitoIDToken_def NewAuthError_def
         split: if_splits jwt_claims.splits option.splits)
  from c u have "Claims (decoded u) = TypedClaims claims" by simp
  with v e(1) have "now < e" using Validate_typed_expiry by simp
  with e show ?thesis by simp
qed

text \<open>
  The library returns an error whenever the validator has one; when the key is found and
  the signature verifies, that error is \<open>jwt.ErrTokenInvalidClaims\<close> around the
  validator's errors.
\<close>

lemma jwt_Parse_invalid_claims:
  assumes "unverified = Inr u" and "Validate now (Claims (decoded u)) \<noteq> []"
  shows "\<exists>err. fst (jwt_Parse now unverified keyFunc s) = Inl err"
  using assms by (simp add: jwt_Parse_def split: sum.splits prod.splits)

lemma jwt_Parse_expired_cause:
  assumes "unverified = Inr u" and "keyFunc (decoded u) s = (Inr key, s')"
    and "signature_ok u key" and "Validate now (Claims (decoded u)) \<noteq> []"
  shows "jwt_Parse now unverified keyFunc s
           = (Inl (JwtError ErrTokenInvalidClaims
                     (Some (Joined (Validate now (Claims (decoded u)))))), s')"
  using assms by (simp add: jwt_Parse_def)

text \<open>Claims that cognito_module returns have passed the validator and its own checks.\<close>

lemma verifyCognitoIDToken_Inr:
  assumes "fst (verifyCognitoIDToken l now config idToken c) = Inr mclaims"
  shows "Validate now (MapClaims mclaims) = [] \<and> check_claims config now mclaims = Inr mclaims"
proof -
  obtain r c' where p: "jwt_Parse now (jwt_ParseUnverified l idToken) (keyfunc l now) c = (r, c')"
    by (cases "jwt_Parse now (jwt_ParseUnverified l idToken) (keyfunc l now) c")
  with assms obtain token where r: "r = Inr token"
    by (cases r) (simp_all add: verifyCognitoIDToken_def)
  from p r have "fst (jwt_Parse now (jwt_ParseUnverified l idToken) (keyfunc l now) c) = Inr token"
    by simp
  from jwt_Parse_Inr [OF this] obtain u :: unverified_token
    where u: "token = (decoded u)\<lparr>Valid := True\<rparr>"
      and v: "Validate now (Claims (decoded u)) = []"
    by blast
  from assms p r obtain m where m: "Claims token = MapClaims m"
    and k: "check_claims config now m = Inr mclaims"
    by (auto simp add: verifyCognitoIDToken_def split: if_splits jwt_claims.splits)
  from k have "m = mclaims"
    by (auto simp add: check_claims_def split: prod.splits if_splits option.splits json.splits)
  with u v m k show ?thesis by simp
qed

lemma verifyCognitoIDToken_expiry_future:
  assumes "fst (verifyCognitoIDToken l now config idToken c) = Inr mclaims"
  shows "\<exists>f. mclaims ''exp'' = Some (JNumber f) \<and> of_int now < f * 1000000000
           \<and> Unix now < int64_of_float f"
proof -
  from verifyCognitoIDToken_Inr [OF assms]
  have v: "Validate now (MapClaims mclaims) = []"
    and k: "check_claims config now mclaims = Inr mclaims"
    by simp_all
  from k obtain f where f: "mclaims ''exp'' = Some (JNumber f)"
    and own: "Unix now < int64_of_float f"
    by (auto simp add: check_claims_def split: prod.splits if_splits option.splits json.splits)
  have "of_int now < f * 1000000000"
  proof (cases "f = 0")
    case True
    with own have "now < 0" by (simp add: Unix_def int64_of_float_def)
    with True show ?thesis by simp
  next
    case False
    with Validate_map_expiry [OF v f] have "now < \<lfloor>f\<rfloor> * 1000000000" by simp
    then show ?thesis by (rule floor_seconds_less)
  qed
  with f own show ?thesis by blast
qed

lemma verifyCognitoIDToken_expired_at_parse:
  assumes "jwt_ParseUnverified l idToken = Inr u" and "Claims (decoded u) = MapClaims m"
    and "m ''exp'' = Some (JNumber f)" and "f \<noteq> 0" and "f * 1000000000 \<le> of_int now"
  shows "\<exists>err. fst (verifyCognitoIDToken l now config idToken c)
                 = Inl (Errorf ''failed to parse/verify token: %w'' [] (Some err))"
proof -
  from assms(5) have fl: "\<lfloor>f\<rfloor> * 1000000000 \<le> now" by (rule floor_seconds_le)
  have "Validate now (MapClaims m) = jwt_ErrTokenExpired # verifyNotBefore (MapClaims m) now"
    using assms(3) assms(4) fl by (rule Validate_map_expired [where m = m])
  with assms(2) have ne: "Validate now (Claims (decoded u)) \<noteq> []" by simp
  from jwt_Parse_invalid_claims [OF assms(1) ne, where keyFunc = "keyfunc l now" and s = c]
  obtain err
    where "fst (jwt_Parse now (jwt_ParseUnverified l idToken) (keyfunc l now) c) = Inl err"
    by (rule exE)
  then have "fst (verifyCognitoIDToken l now config idToken c)
               = Inl (Errorf ''failed to parse/verify token: %w'' [] (Some err))"
    by (cases "jwt_Parse now (jwt_ParseUnverified l idToken) (keyfunc l now) c")
       (simp add: verifyCognitoIDToken_def)
  then show ?thesis by blast
qed

lemma VerifyCognitoIDToken_expired_at_parse:
  assumes "unverified = Inr u" and "Claims (decoded u) = TypedClaims tclaims"
    and "ExpiresAt tclaims = Some expiresAt" and "expiresAt \<le> now"
  shows "\<exists>err. VerifyCognitoIDToken config now' (fst (jwt_Parse now unverified keyFunc s))
                 = Inl (AuthError ''TOKEN_PARSE_FAILED'' ''Failed to parse token'' (Some err))"
proof -
  have "Validate now (TypedClaims tclaims)
          = jwt_ErrTokenExpired # verifyNotBefore (TypedClaims tclaims) now"
    by (rule Validate_typed_expired [OF assms(3) assms(4)])
  with assms(2) have ne: "Validate now (Claims (decoded u)) \<noteq> []" by simp
  from jwt_Parse_invalid_claims [OF assms(1) ne, where keyFunc = keyFunc and s = s]
  obtain err where "fst (jwt_Parse now unverified keyFunc s) = Inl err"
    by (rule exE)
  then show ?thesis by (simp add: VerifyCognitoIDToken_def NewAuthError_def)
qed

text \<open>
  C2, as amended. \<open>now\<close> is the time at which the library validates the token (in
  cognito_module also the time of the module's own check), \<open>now'\<close> the time of the
  runtime module's own check. In both modules verification succeeds only if the token has
  an \<open>exp\<close> strictly after \<open>now\<close> (and one that passes the module's own check: in the runtime
  module \<open>now'\<close> is not after it, in cognito_module its whole seconds lie after the second
  of \<open>now\<close>). A token whose \<open>exp\<close> is at or before \<open>now\<close> is refused, but
  not as expired: the library refuses it while it parses, so the runtime module answers
  \<open>TOKEN_PARSE_FAILED\<close> and cognito_module \<open>failed to parse/verify token\<close>, each around the
  library's error (in cognito_module for an \<open>exp\<close> other than the number 0, which the
  library reads as no \<open>exp\<close>).
\<close>

theorem expired_token_is_parse_failure:
  "(VerifyCognitoIDToken config now' (fst (jwt_Parse now unverified keyFunc s)) = Inr claims
      \<longrightarrow> (\<exists>expiresAt. ExpiresAt claims = Some expiresAt \<and> now < expiresAt
             \<and> now' \<le> expiresAt))
   \<and> (fst (verifyCognitoIDToken l now config_cm idToken c) = Inr mclaims
      \<longrightarrow> (\<exists>f. mclaims ''exp'' = Some (JNumber f) \<and> of_int now < f * 1000000000
             \<and> Unix now < int64_of_float f))
   \<and> (unverified = Inr u \<and> Claims (decoded u) = TypedClaims tclaims
        \<and> ExpiresAt tclaims = Some expiresAt \<and> expiresAt \<le> now
      \<longrightarrow> (\<exists>err. VerifyCognitoIDToken config now' (fst (jwt_Parse now unverified keyFunc s))
                   = Inl (AuthError ''TOKEN_PARSE_FAILED'' ''Failed to parse token''
                            (Some err))))
   \<and> (jwt_ParseUnverified l idToken = Inr u' \<and> Claims (decoded u') = MapClaims m
        \<and> m ''exp'' = Some (JNumber f) \<and> f \<noteq> 0 \<and> f * 1000000000 \<le> of_int now
      \<longrightarrow> (\<exists>err. fst (verifyCognitoIDToken l now config_cm idToken c)
                   = Inl (Errorf ''failed to parse/verify token: %w'' [] (Some err))))"
proof (intro conjI impI)
  assume "VerifyCognitoIDToken config now' (fst (jwt_Parse now unverified keyFunc s)) = Inr claims"
  then show "\<exists>expiresAt. ExpiresAt claims = Some expiresAt \<and> now < expiresAt
          \<and> now' \<le> expiresAt"
    by (rule VerifyCognitoIDToken_after_parse)
next
  assume "fst (verifyCognitoIDToken l now config_cm idToken c) = Inr mclaims"
  then show "\<exists>f. mclaims ''exp'' = Some (JNumber f) \<and> of_int now < f * 1000000000
          \<and> Unix now < int64_of_float f"
    by (rule verifyCognitoIDToken_expiry_future)
next
  assume a: "unverified = Inr u \<and> Claims (decoded u) = TypedClaims tclaims
        \<and> ExpiresAt tclaims = Some expiresAt \<and> expiresAt \<le> now"
  from a have 1: "unverified = Inr u" and 2: "Claims (decoded u) = TypedClaims tclaims"
    and 3: "ExpiresAt tclaims = Some expiresAt" and 4: "expiresAt \<le> now"
    by simp_all
  show "\<exists>err. VerifyCognitoIDToken config now' (fst (jwt_Parse now unverified keyFunc s))
                   = Inl (AuthError ''TOKEN_PARSE_FAILED'' ''Failed to parse token''
                            (Some err))"
    by (rule VerifyCognitoIDToken_expired_at_parse [OF 1 2 3 4])
next
  assume b: "jwt_ParseUnverified l idToken = Inr u' \<and> Claims (decoded u') = MapClaims m
        \<and> m ''exp'' = Some (JNumber f) \<and> f \<noteq> 0 \<and> f * 1000000000 \<le> of_int now"
  from b have 1: "jwt_ParseUnverified l idToken = Inr u'"
    and 2: "Claims (decoded u') = MapClaims m" and 3: "m ''exp'' = Some (JNumber f)"
    and 4: "f \<noteq> 0" and 5: "f * 1000000000 \<le> of_int now"
    by simp_all
  show "\<exists>err. fst (verifyCognitoIDToken l now config_cm idToken c)
                   = Inl (Errorf ''failed to parse/verify token: %w'' [] (Some err))"
    by (rule verifyCognitoIDToken_expired_at_parse [OF 1 2 3 4 5])
qed

text \<open>
  The first example scenario in both modules: the token with \<open>exp = now + 3600\<close>, signed
  with a key the module finds, is accepted.
\<close>

lemma example_token_accepted:
  "VerifyCognitoIDToken example_config example_now
     (fst (jwt_Parse example_now
             (Inr (example_typed_token (example_claims 1700003600000000000)))
             example_keyfunc ()))
   = Inr (example_claims 1700003600000000000)"
  by (simp add: VerifyCognitoIDToken_def jwt_Parse_def example_typed_token_def
        example_keyfunc_def example_parsed_def example_claims_def example_config_def
        example_now_def Validate_def verifyExpiresAt_def verifyNotBefore_def)

lemma example_token_exp_accepted:
  "fst (verifyCognitoIDToken (example_lib (example_token_exp 1700003600)) example_now
          example_config_cm ''id-token-1'' example_cache)
   = Inr [''iss'' \<mapsto> JString ''https://idp.example/pool1'',
          ''aud'' \<mapsto> JString ''client-abc'', ''token_use'' \<mapsto> JString ''id'',
          ''exp'' \<mapsto> JNumber 1700003600, ''sub'' \<mapsto> JString ''user-42'']"
  by (simp add: verifyCognitoIDToken_def jwt_Parse_def keyfunc_def GetKey_def time_Since_def
        check_claims_def token_aud_def example_lib_def example_token_exp_def example_cache_def
        example_now_def example_config_cm_def example_key_def Unix_def int64_of_float_def
        Validate_def verifyExpiresAt_def verifyNotBefore_def newNumericDateFromSeconds_def)

text \<open>
  With the example tokens: the one with \<open>exp = now + 3600\<close> is accepted and its \<open>exp\<close>
  lies after \<open>now\<close>; the one with \<open>exp = now - 10\<close> is refused as a parse failure.
\<close>

theorem expired_token_is_parse_failure_witness:
  "VerifyCognitoIDToken example_config example_now
     (fst (jwt_Parse example_now
             (Inr (example_typed_token (example_claims 1700003600000000000)))
             example_keyfunc ()))
   = Inr (example_claims 1700003600000000000)
   \<and> (\<exists>expiresAt. ExpiresAt (example_claims 1700003600000000000) = Some expiresAt
          \<and> example_now < expiresAt \<and> example_now \<le> expiresAt)
   \<and> fst (verifyCognitoIDToken (example_lib (example_token_exp 1700003600)) example_now
          example_config_cm ''id-token-1'' example_cache)
     = Inr [''iss'' \<mapsto> JString ''https://idp.example/pool1'',
            ''aud'' \<mapsto> JString ''client-abc'', ''token_use'' \<mapsto> JString ''id'',
            ''exp'' \<mapsto> JNumber 1700003600, ''sub'' \<mapsto> JString ''user-42'']
   \<and> of_int example_now < (1700003600 :: rat) * 1000000000
   \<and> (\<exists>err. VerifyCognitoIDToken example_config example_now
                (fst (jwt_Parse example_now
                        (Inr (example_typed_token (example_claims 1699999990000000000)))
                        example_keyfunc ()))
              = Inl (AuthError ''TOKEN_PARSE_FAILED'' ''Failed to parse token'' (Some err)))
   \<and> (\<exists>err. fst (verifyCognitoIDToken (example_lib (example_token_exp 1699999990))
                     example_now example_config_cm ''id-token-1'' example_cache)
              = Inl (Errorf ''failed to parse/verify token: %w'' [] (Some err)))"
proof -
  note a = expired_token_is_parse_failure
    [where config = example_config and now' = example_now and now = example_now
       and unverified = "Inr (example_typed_token (example_claims 1700003600000000000))"
       and keyFunc = example_keyfunc and s = "()"
       and claims = "example_claims 1700003600000000000"
       and l = "example_lib (example_token_exp 1700003600)"
       and config_cm = example_config_cm and idToken = "''id-token-1''"
       and c = example_cache
       and mclaims = "[''iss'' \<mapsto> JString ''https://idp.example/pool1'',
          ''aud'' \<mapsto> JString ''client-abc'', ''token_use'' \<mapsto> JString ''id'',
          ''exp'' \<mapsto> JNumber 1700003600, ''sub'' \<mapsto> JString ''user-42'']"]
  note b = expired_token_is_parse_failure
    [where config = example_config and now' = example_now and now = example_now
       and unverified = "Inr (example_typed_token (example_claims 1699999990000000000))"
       and keyFunc = example_keyfunc and s = "()"
       and u = "example_typed_token (example_claims 1699999990000000000)"
       and tclaims = "example_claims 1699999990000000000"
       and expiresAt = 1699999990000000000
       and l = "example_lib (example_token_exp 1699999990)"
       and config_cm = example_config_cm and idToken = "''id-token-1''"
       and c = example_cache
       and u' = "example_token_exp 1699999990"
       and m = "[''iss'' \<mapsto> JString ''https://idp.example/pool1'',
          ''aud'' \<mapsto> JString ''client-abc'', ''token_use'' \<mapsto> JString ''id'',
          ''exp'' \<mapsto> JNumber 1699999990, ''sub'' \<mapsto> JString ''user-42'']"
       and f = 1699999990]
  from a [THEN conjunct1, THEN mp, OF example_token_accepted]
  have 1: "\<exists>expiresAt. ExpiresAt (example_claims 1700003600000000000) = Some expiresAt
          \<and> example_now < expiresAt \<and> example_now \<le> expiresAt" .
  from a [THEN conjunct2, THEN conjunct1, THEN mp, OF example_token_exp_accepted]
  have 2: "of_int example_now < (1700003600 :: rat) * 1000000000"
    by simp
  have "Inr (example_typed_token (example_claims 1699999990000000000))
          = (Inr (example_typed_token (example_claims 1699999990000000000))
              :: go_error + unverified_token)
        \<and> Claims (decoded (example_typed_token (example_claims 1699999990000000000)))
          = TypedClaims (example_claims 1699999990000000000)
        \<and> ExpiresAt (example_claims 1699999990000000000) = Some 1699999990000000000
        \<and> 1699999990000000000 \<le> example_now"
    by (simp add: example_typed_token_def example_parsed_def example_claims_def
          example_now_def)
  from b [THEN conjunct2, THEN conjunct2, THEN conjunct1, THEN mp, OF this]
  have 3: "\<exists>err. VerifyCognitoIDToken example_config example_now
                (fst (jwt_Parse example_now
                        (Inr (example_typed_token (example_claims 1699999990000000000)))
                        example_keyfunc ()))
              = Inl (AuthError ''TOKEN_PARSE_FAILED'' ''Failed to parse token'' (Some err))" .
  have "jwt_ParseUnverified (example_lib (example_token_exp 1699999990)) ''id-token-1''
          = Inr (example_token_exp 1699999990)
        \<and> Claims (decoded (example_token_exp 1699999990))
          = MapClaims [''iss'' \<mapsto> JString ''https://idp.example/pool1'',
              ''aud'' \<mapsto> JString ''client-abc'', ''token_use'' \<mapsto> JString ''id'',
              ''exp'' \<mapsto> JNumber 1699999990, ''sub'' \<mapsto> JString ''user-42'']
        \<and> [''iss'' \<mapsto> JString ''https://idp.example/pool1'',
              ''aud'' \<mapsto> JString ''client-abc'', ''token_use'' \<mapsto> JString ''id'',
              ''exp'' \<mapsto> JNumber 1699999990, ''sub'' \<mapsto> JString ''user-42''] ''exp''
            = Some (JNumber 1699999990)
        \<and> (1699999990 :: rat) \<noteq> 0
        \<and> (1699999990 :: rat) * 1000000000 \<le> of_int example_now"
    by (simp add: example_lib_def example_token_exp_def example_now_def)
  from b [THEN conjunct2, THEN conjunct2, THEN conjunct2, THEN mp, OF this]
  have 4: "\<exists>err. fst (verifyCognitoIDToken (example_lib (example_token_exp 1699999990))
                     example_now example_config_cm ''id-token-1'' example_cache)
              = Inl (Errorf ''failed to parse/verify token: %w'' [] (Some err))" .
  from example_token_accepted 1 example_token_exp_accepted 2 3 4 show ?thesis
    by (intro conjI)
qed

text \<open>
  C2 as stated fails: the tokens of the example with \<open>exp = now - 10\<close> and with
  \<open>exp = now\<close>, signed with a key the module finds, are refused with
  \<open>TOKEN_PARSE_FAILED\<close> in the runtime module and with \<open>failed to parse/verify token\<close> in
  cognito_module, around \<open>jwt.ErrTokenExpired\<close> of the library, and not with
  \<open>TOKEN_EXPIRED\<close> or \<open>token has expired\<close>.
\<close>

theorem expired_token_not_TokenExpired:
  "VerifyCognitoIDToken example_config example_now
     (fst (jwt_Parse example_now
             (Inr (example_typed_token (example_claims 1699999990000000000)))
             example_keyfunc ()))
   = Inl (AuthError ''TOKEN_PARSE_FAILED'' ''Failed to parse token''
            (Some (JwtError ErrTokenInvalidClaims (Some (Joined [jwt_ErrTokenExpired])))))
   \<and> VerifyCognitoIDToken example_config example_now
     (fst (jwt_Parse example_now
             (Inr (example_typed_token (example_claims example_now)))
             example_keyfunc ()))
   = Inl (AuthError ''TOKEN_PARSE_FAILED'' ''Failed to parse token''
            (Some (JwtError ErrTokenInvalidClaims (Some (Joined [jwt_ErrTokenExpired])))))
   \<and> fst (verifyCognitoIDToken (example_lib (example_token_exp 1699999990)) example_now
          example_config_cm ''id-token-1'' example_cache)
   = Inl (Errorf ''failed to parse/verify token: %w'' []
            (Some (JwtError ErrTokenInvalidClaims (Some (Joined [jwt_ErrTokenExpired])))))
   \<and> fst (verifyCognitoIDToken (example_lib (example_token_exp 1700000000)) example_now
          example_config_cm ''id-token-1'' example_cache)
   = Inl (Errorf ''failed to parse/verify token: %w'' []
            (Some (JwtError ErrTokenInvalidClaims (Some (Joined [jwt_ErrTokenExpired])))))"
proof -
  have 1: "VerifyCognitoIDToken example_config example_now
     (fst (jwt_Parse example_now
             (Inr (example_typed_token (example_claims 1699999990000000000)))
             example_keyfunc ()))
   = Inl (AuthError ''TOKEN_PARSE_FAILED'' ''Failed to parse token''
            (Some (JwtError ErrTokenInvalidClaims (Some (Joined [jwt_ErrTokenExpired])))))"
    by (simp add: VerifyCognitoIDToken_def NewAuthError_def jwt_Parse_def
        example_typed_token_def example_keyfunc_def example_parsed_def example_claims_def
        example_now_def Validate_def verifyExpiresAt_def verifyNotBefore_def)
  have 2: "VerifyCognitoIDToken example_config example_now
     (fst (jwt_Parse example_now
             (Inr (example_typed_token (example_claims example_now)))
             example_keyfunc ()))
   = Inl (AuthError ''TOKEN_PARSE_FAILED'' ''Failed to parse token''
            (Some (JwtError ErrTokenInvalidClaims (Some (Joined [jwt_ErrTokenExpired])))))"
    by (simp add: VerifyCognitoIDToken_def NewAuthError_def jwt_Parse_def
        example_typed_token_def example_keyfunc_def example_parsed_def example_claims_def
        Validate_def verifyExpiresAt_def verifyNotBefore_def)
  have 3: "fst (verifyCognitoIDToken (example_lib (example_token_exp 1699999990)) example_now
          example_config_cm ''id-token-1'' example_cache)
   = Inl (Errorf ''failed to parse/verify token: %w'' []
            (Some (JwtError ErrTokenInvalidClaims (Some (Joined [jwt_ErrTokenExpired])))))"
    by (simp add: verifyCognitoIDToken_def jwt_Parse_def keyfunc_def GetKey_def time_Since_def
        example_lib_def example_token_exp_def example_cache_def
        example_now_def example_key_def
        Validate_def verifyExpiresAt_def verifyNotBefore_def newNumericDateFromSeconds_def)
  have 4: "fst (verifyCognitoIDToken (example_lib (example_token_exp 1700000000)) example_now
          example_config_cm ''id-token-1'' example_cache)
   = Inl (Errorf ''failed to parse/verify token: %w'' []
            (Some (JwtError ErrTokenInvalidClaims (Some (Joined [jwt_ErrTokenExpired])))))"
    by (simp add: verifyCognitoIDToken_def jwt_Parse_def keyfunc_def GetKey_def time_Since_def
        example_lib_def example_token_exp_def example_cache_def
        example_now_def example_key_def
        Validate_def verifyExpiresAt_def verifyNotBefore_def newNumericDateFromSeconds_def)
  from 1 2 3 4 show ?thesis by (intro conjI)
qed

text \<open>
  When the modules do answer that the token has expired: the runtime module only for a
  token that was unexpired when the library validated it and whose \<open>exp\<close> lies before the
  time of the module's own, later check; cognito_module only for a token whose \<open>exp\<close> is
  the number 0.
\<close>

lemma VerifyCognitoIDToken_TOKEN_EXPIRED_only_later:
  assumes "VerifyCognitoIDToken config now' (fst (jwt_Parse now unverified keyFunc s))
             = Inl (AuthError ''TOKEN_EXPIRED'' message cause)"
  shows "\<exists>u claims expiresAt. unverified = Inr u \<and> Claims (decoded u) = TypedClaims claims
           \<and> ExpiresAt claims = Some expiresAt \<and> now < expiresAt \<and> expiresAt < now'"
proof (cases "fst (jwt_Parse now unverified keyFunc s)")
  case (Inl err)
  with assms show ?thesis by (simp add: VerifyCognitoIDToken_def NewAuthError_def)
next
  case (Inr token)
  from jwt_Parse_Inr [OF Inr] obtain u :: unverified_token
    where u: "unverified = Inr u" and t: "token = (decoded u)\<lparr>Valid := True\<rparr>"
      and v: "Validate now (Claims (decoded u)) = []"
    by blast
  from assms Inr obtain claims e where c: "Claims token = TypedClaims claims"
    and e: "ExpiresAt claims = Some e" "e < now'"
    by (auto simp add: VerifyCognitoIDToken_def NewAuthError_def
         split: if_splits jwt_claims.splits option.splits)
  from c t have c': "Claims (decoded u) = TypedClaims claims" by simp
  with v e(1) have "now < e" using Validate_typed_expiry by simp
  with u c' e show ?thesis by blast
qed

lemma verifyCognitoIDToken_token_has_expired:
  assumes "fst (verifyCognitoIDToken l now config idToken c)
             = Inl (Errorf ''token has expired'' [] None)"
  shows "\<exists>u m. jwt_ParseUnverified l idToken = Inr u \<and> Claims (decoded u) = MapClaims m
           \<and> m ''exp'' = Some (JNumber 0)"
proof -
  obtain r c' where p: "jwt_Parse now (jwt_ParseUnverified l idToken) (keyfunc l now) c = (r, c')"
    by (cases "jwt_Parse now (jwt_ParseUnverified l idToken) (keyfunc l now) c")
  with assms obtain token where r: "r = Inr token"
    by (cases r) (simp_all add: verifyCognitoIDToken_def)
  from p r have "fst (jwt_Parse now (jwt_ParseUnverified l idToken) (keyfunc l now) c) = Inr token"
    by simp
  from jwt_Parse_Inr [OF this] obtain u :: unverified_token
    where u: "jwt_ParseUnverified l idToken = Inr u"
      and t: "token = (decoded u)\<lparr>Valid := True\<rparr>"
      and v: "Validate now (Claims (decoded u)) = []"
    by blast
  from assms p r obtain m where m: "Claims token = MapClaims m"
    and k: "check_claims config now m = Inl (Errorf ''token has expired'' [] None)"
    by (auto simp add: verifyCognitoIDToken_def split: if_splits jwt_claims.splits)
  from k obtain f where f: "m ''exp'' = Some (JNumber f)"
    and own: "int64_of_float f \<le> Unix now"
    by (auto simp add: check_claims_def split: prod.splits if_splits option.splits json.splits)
  from m t have m': "Claims (decoded u) = MapClaims m" by simp
  have "f = 0"
  proof (rule ccontr)
    assume "f \<noteq> 0"
    with v m' f have lt: "now < \<lfloor>f\<rfloor> * 1000000000"
      using Validate_map_expiry [where m = m] by simp
    have "\<lfloor>f\<rfloor> \<le> int64_of_float f"
      by (simp add: int64_of_float_def floor_le_ceiling)
    with own have "\<lfloor>f\<rfloor> \<le> now div 1000000000" by (simp add: Unix_def)
    then have "\<lfloor>f\<rfloor> * 1000000000 \<le> now" by simp
    with lt show False by simp
  qed
  with u m' f show ?thesis by blast
qed

subsection \<open>Wallet provisioning during login and link (C3)\<close>








subsection \<open>Refreshing the key cache (C4)\<close>

text \<open>The loop of \<open>fetchJWKS\<close> adds the parsed keys to the map it is given; a later entry
  with the same key id wins.\<close>

lemma update_cache_eq: "update_cache l keys m = m ++ map_of (rev (parsed_keys l keys))"
proof (induction keys arbitrary: m)
  case Nil
  then show ?case by (simp add: parsed_keys_def)
next
  case (Cons jwk rest)
  show ?case
  proof (cases "Kty jwk = ''RSA''")
    case False
    then show ?thesis using Cons.IH[of m] by (simp add: parsed_keys_def)
  next
    case True
    show ?thesis
    proof (cases "jwkToRSAPublicKey l jwk")
      case (Inl err)
      then show ?thesis using True Cons.IH[of m] by (simp add: parsed_keys_def)
    next
      case (Inr key)
      have "update_cache l (jwk # rest) m = update_cache l rest (m(Kid jwk \<mapsto> key))"
        using True Inr by simp
      also have "\<dots> = (m(Kid jwk \<mapsto> key)) ++ map_of (rev (parsed_keys l rest))"
        by (rule Cons.IH)
      also have "\<dots> = m ++ map_of (rev (parsed_keys l (jwk # rest)))"
        using True Inr
        by (simp add: parsed_keys_def fun_eq_iff map_add_def split: option.splits)
      finally show ?thesis .
    qed
  qed
qed


text \<open>
  C4, as amended. A refresh that succeeds got a response with status 200 whose body
  decodes to a list of keys, and it merges: afterwards the cache is the old cache
  overridden by the keys parsed from the document, so its key ids are the old ones
  together with the parsed ones, and every key id the document does not yield keeps the
  key it had. The time of the fetch is recorded.
\<close>

theorem fetchJWKS_merges:
  assumes "fetchJWKS l now c = (None, c')"
  shows "\<exists>resp body keys.
           http_Get l (jwksURL c) = Inr resp \<and> StatusCode resp = 200 \<and> Body resp = Inr body
         \<and> json_Unmarshal_JWKS l body = Inr keys
         \<and> c' = c\<lparr>cache := cache c ++ map_of (rev (parsed_keys l keys)), lastFetch := now\<rparr>
         \<and> dom (cache c') = dom (cache c) \<union> fst ` set (parsed_keys l keys)
         \<and> (\<forall>kid. kid \<notin> fst ` set (parsed_keys l keys) \<longrightarrow> cache c' kid = cache c kid)"
proof -
  from assms obtain resp body keys where
    h: "http_Get l (jwksURL c) = Inr resp" "StatusCode resp = 200" "Body resp = Inr body"
       "json_Unmarshal_JWKS l body = Inr keys"
    and c': "c' = c\<lparr>cache := update_cache l keys (cache c), lastFetch := now\<rparr>"
    by (auto simp: fetchJWKS_def split: sum.splits if_splits)
  have eq: "cache c' = cache c ++ map_of (rev (parsed_keys l keys))"
    using c' by (simp add: update_cache_eq)
  have d: "dom (cache c') = dom (cache c) \<union> fst ` set (parsed_keys l keys)"
    by (simp add: eq dom_map_of_conv_image_fst Un_commute)
  have "map_of (rev (parsed_keys l keys)) kid = None"
    if "kid \<notin> fst ` set (parsed_keys l keys)" for kid
    using that by (simp add: map_of_eq_None_iff)
  then have k: "\<forall>kid. kid \<notin> fst ` set (parsed_keys l keys) \<longrightarrow> cache c' kid = cache c kid"
    by (simp add: eq map_add_def)
  show ?thesis using h c' d k by (auto simp: update_cache_eq)
qed

lemma example_parsed_keys:
  "parsed_keys example_lib_up
     [\<lparr>Kid = ''k2'', Kty = ''RSA'', Alg = ''RS256'', Use = ''sig'', N = ''DKE'', E = ''AQAB''\<rparr>]
   = [(''k2'', \<lparr>rsa_N = 3233, rsa_E = 65537\<rparr>)]"
  by (simp add: parsed_keys_def jwkToRSAPublicKey_def example_lib_up_def Int64_def)

lemma example_fetch:
  "fetchJWKS example_lib_up example_now example_cache
   = (None, example_cache\<lparr>cache := [''k1'' \<mapsto> example_key,
                                      ''k2'' \<mapsto> \<lparr>rsa_N = 3233, rsa_E = 65537\<rparr>],
                            lastFetch := example_now\<rparr>)"
  by (simp add: fetchJWKS_def jwkToRSAPublicKey_def example_lib_up_def Int64_def
        example_cache_def)

text \<open>
  A refresh of the example cache, which holds \<open>k1\<close>, from a document with the one key
  \<open>k2\<close>: afterwards the cache holds both.
\<close>

theorem fetchJWKS_merges_witness:
  "fetchJWKS example_lib_up example_now example_cache
     = (None, example_cache\<lparr>cache := [''k1'' \<mapsto> example_key,
                                        ''k2'' \<mapsto> \<lparr>rsa_N = 3233, rsa_E = 65537\<rparr>],
                              lastFetch := example_now\<rparr>)
   \<and> dom (cache (snd (fetchJWKS example_lib_up example_now example_cache))) = {''k1'', ''k2''}"
proof -
  let ?c' = "example_cache\<lparr>cache := [''k1'' \<mapsto> example_key,
                                      ''k2'' \<mapsto> \<lparr>rsa_N = 3233, rsa_E = 65537\<rparr>],
                            lastFetch := example_now\<rparr>"
  from fetchJWKS_merges [OF example_fetch] obtain resp body keys where
    "http_Get example_lib_up (jwksURL example_cache) = Inr resp"
    and k: "json_Unmarshal_JWKS example_lib_up body = Inr keys"
    and d: "dom (cache ?c') = dom (cache example_cache) \<union> fst ` set (parsed_keys example_lib_up keys)"
    by blast
  have "keys = [\<lparr>Kid = ''k2'', Kty = ''RSA'', Alg = ''RS256'', Use = ''sig'', N = ''DKE'',
                  E = ''AQAB''\<rparr>]"
    using k by (simp add: example_lib_up_def)
  then have "dom (cache ?c') = {''k1'', ''k2''}"
    using d by (simp add: example_parsed_keys example_cache_def insert_commute)
  then show ?thesis by (simp add: example_fetch)
qed

text \<open>
  C4 as stated fails: after that successful refresh from a document that holds \<open>k2\<close>
  only, the key \<open>k1\<close> of the earlier fetch is still in the cache.
\<close>

theorem fetchJWKS_keeps_absent_key:
  "fst (fetchJWKS example_lib_up example_now example_cache) = None
   \<and> cache (snd (fetchJWKS example_lib_up example_now example_cache)) ''k1'' = Some example_key"
  by (simp add: example_fetch)

subsection \<open>Failures of the key fetch (C5)\<close>

text \<open>Every error of \<open>VerifyCognitoIDToken\<close> is an \<open>AuthError\<close> with one of eight codes, or the
  panic on a token without \<open>exp\<close>.\<close>

lemma VerifyCognitoIDToken_codes:
  "(case VerifyCognitoIDToken config now parsed of
      Inr claims \<Rightarrow> True
    | Inl (AuthError code message w) \<Rightarrow>
        code \<in> {''TOKEN_PARSE_FAILED'', ''TOKEN_INVALID'', ''CLAIMS_EXTRACTION_FAILED'',
                 ''INVALID_ISSUER'', ''INVALID_AUDIENCE'', ''INVALID_TOKEN_USE'',
                 ''TOKEN_EXPIRED'', ''MISSING_SUBJECT''}
    | Inl e \<Rightarrow> e = Panic ''nil pointer dereference'')"
  by (simp add: VerifyCognitoIDToken_def NewAuthError_def
        split: sum.splits jwt_claims.splits option.splits)





subsection \<open>Numeric fields of a transaction request (C6)\<close>

lemma SetString_examples:
  "SetString ''not-a-number'' = None" "SetString ''-1'' = Some (- 1)"
  "SetString ''0x1f'' = Some 31" "SetString ''1000000000000000000'' = Some 1000000000000000000"
  "SetString ''1e18'' = None"
  by (simp_all add: SetString_def nat_scan_def scan_prefix_def digit_val_def)

lemma signAndSend_unparsable:
  assumes "unparsable (ValueWei request) \<or> unparsable (GasLimit request)
           \<or> unparsable (MaxFeePerGasWei request)
           \<or> unparsable (MaxPriorityFeePerGasWei request)"
  shows "snd (signAndSendEVMTransaction kmsSigner e externalID request config signer) = []
     \<and> (\<exists>f args. fst (signAndSendEVMTransaction kmsSigner e externalID request config signer)
                    = Inl (Errorf f args None)
          \<and> f \<in> {''missing 'to' address'', ''invalid value: %s'', ''invalid gas limit: %s'',
                   ''invalid max fee per gas: %s'', ''invalid max priority fee per gas: %s''})"
proof -
  let ?r = "signAndSendEVMTransaction kmsSigner e externalID request config signer"
  let ?parse = "\<lambda>s. if s \<noteq> [] then SetString s else Some 0"
  have bad: "unparsable s \<longleftrightarrow> ?parse s = None" for s
    by (simp add: unparsable_def)
  show ?thesis
  proof (cases "To request = []")
    case True
    then have "?r = (Inl (Errorf ''missing 'to' address'' [] None), [])"
      by (simp add: signAndSendEVMTransaction_def)
    then show ?thesis by simp
  next
    case to: False
    show ?thesis
    proof (cases "?parse (ValueWei request)")
      case None
      then have "?r = (Inl (Errorf ''invalid value: %s'' [S (ValueWei request)] None), [])"
        using to by (simp add: signAndSendEVMTransaction_def)
      then show ?thesis by simp
    next
      case v: (Some val)
      show ?thesis
      proof (cases "?parse (GasLimit request)")
        case None
        then have "?r = (Inl (Errorf ''invalid gas limit: %s'' [S (GasLimit request)] None), [])"
          using to v by (simp add: signAndSendEVMTransaction_def)
        then show ?thesis by simp
      next
        case g: (Some gasLimit)
        show ?thesis
        proof (cases "?parse (MaxFeePerGasWei request)")
          case None
          then have "?r = (Inl (Errorf ''invalid max fee per gas: %s''
                                  [S (MaxFeePerGasWei request)] None), [])"
            using to v g by (simp add: signAndSendEVMTransaction_def)
          then show ?thesis by simp
        next
          case m: (Some maxFeePerGas)
          show ?thesis
          proof (cases "?parse (MaxPriorityFeePerGasWei request)")
            case None
            then have "?r = (Inl (Errorf ''invalid max priority fee per gas: %s''
                                    [S (MaxPriorityFeePerGasWei request)] None), [])"
              using to v g m by (simp add: signAndSendEVMTransaction_def)
            then show ?thesis by simp
          next
            case (Some maxPriorityFeePerGas)
            then show ?thesis using assms v g m by (simp add: bad)
          qed
        qed
      qed
    qed
  qed
qed

lemma signAndSend_signs_when_parsable:
  assumes "To request \<noteq> []" and "\<not> unparsable (ValueWei request)"
    and "\<not> unparsable (GasLimit request)" and "\<not> unparsable (MaxFeePerGasWei request)"
    and "\<not> unparsable (MaxPriorityFeePerGasWei request)"
  shows "\<exists>hash. snd (signAndSendEVMTransaction kmsSigner e externalID request config signer)
                  = [(externalID, hash)]"
proof -
  let ?parse = "\<lambda>s. if s \<noteq> [] then SetString s else Some 0"
  have ok: "\<not> unparsable s \<Longrightarrow> \<exists>v. ?parse s = Some v" for s
    by (auto simp add: unparsable_def)
  from ok[OF assms(2)] obtain val where v: "?parse (ValueWei request) = Some val" ..
  from ok[OF assms(3)] obtain gasLimit where g: "?parse (GasLimit request) = Some gasLimit" ..
  from ok[OF assms(4)] obtain maxFee where
    m: "?parse (MaxFeePerGasWei request) = Some maxFee" ..
  from ok[OF assms(5)] obtain maxPrio where
    p: "?parse (MaxPriorityFeePerGasWei request) = Some maxPrio" ..
  show ?thesis
    using assms(1) v g m p
    by (simp add: signAndSendEVMTransaction_def signTransaction_def Let_def
          split: sum.splits)
qed

text \<open>\<open>rpcSignAndSend\<close> hands the decoded request to \<open>signAndSendEVMTransaction\<close> and
  returns what it returns, the error as it is.\<close>

lemma rpcSignAndSend_passes_on:
  assumes "WalletEnabled config" and "userID \<noteq> []"
    and "AccountGetId nk userID = Inr customId" and "is_cognito_id customId"
    and "FromJSON_EVMTransactionRequest h payload = Inr request"
  shows "rpcSignAndSend h e kmsSigner config (Some userID) payload nk
           = signAndSendEVMTransaction kmsSigner e customId request config kmsSigner"
  using assms by (simp add: rpcSignAndSend_def split: prod.splits sum.splits)

text \<open>
  C6, as amended. When one of the four numeric fields is given and \<open>SetString(s, 0)\<close>
  does not accept it, \<open>signAndSendEVMTransaction\<close> returns an error made by
  \<open>fmt.Errorf\<close> that wraps nothing (so it is neither \<open>ErrInvalidPayload\<close> nor an
  \<open>AuthError\<close> with a code): the one for the first such field, or the one for a missing
  recipient; and the signing service is not called. When the recipient is given and
  every numeric field that is given is accepted by \<open>SetString(s, 0)\<close>, whatever its
  sign, the signing service is called, once.
\<close>

theorem signAndSend_rejects_unparsable:
  "(unparsable (ValueWei request) \<or> unparsable (GasLimit request)
      \<or> unparsable (MaxFeePerGasWei request) \<or> unparsable (MaxPriorityFeePerGasWei request)
    \<longrightarrow> snd (signAndSendEVMTransaction kmsSigner e externalID request config signer) = []
      \<and> (\<exists>f args. fst (signAndSendEVMTransaction kmsSigner e externalID request config signer)
                     = Inl (Errorf f args None)
           \<and> f \<in> {''missing 'to' address'', ''invalid value: %s'', ''invalid gas limit: %s'',
                    ''invalid max fee per gas: %s'', ''invalid max priority fee per gas: %s''}))
   \<and> (To request \<noteq> [] \<and> \<not> unparsable (ValueWei request) \<and> \<not> unparsable (GasLimit request)
        \<and> \<not> unparsable (MaxFeePerGasWei request)
        \<and> \<not> unparsable (MaxPriorityFeePerGasWei request)
      \<longrightarrow> (\<exists>hash. snd (signAndSendEVMTransaction kmsSigner e externalID request config signer)
                    = [(externalID, hash)]))"
  using signAndSend_unparsable [of request kmsSigner e externalID config signer]
    signAndSend_signs_when_parsable [of request kmsSigner e externalID config signer]
  by blast

text \<open>The sixth example scenario, the value \<open>not-a-number\<close>; and a request that parses.\<close>

theorem signAndSend_rejects_unparsable_witness:
  "signAndSendEVMTransaction example_signer example_eth ''cognito:user-42''
     \<lparr>To = ''0xabc0'', ValueWei = ''not-a-number'', Data = [], GasLimit = ''21000'',
      MaxFeePerGasWei = ''50000000000'', MaxPriorityFeePerGasWei = ''2000000000'', Nonce = 0\<rparr>
     example_config example_signer
     = (Inl (Errorf ''invalid value: %s'' [S ''not-a-number''] None), [])
   \<and> snd (signAndSendEVMTransaction example_signer example_eth ''cognito:user-42''
     \<lparr>To = ''0xabc0'', ValueWei = ''0x1f'', Data = [], GasLimit = [],
      MaxFeePerGasWei = [], MaxPriorityFeePerGasWei = [], Nonce = 0\<rparr>
     example_config example_signer)
     = [(''cognito:user-42'', [1, 2, 3])]"
proof -
  let ?bad = "\<lparr>To = ''0xabc0'', ValueWei = ''not-a-number'', Data = [],
      GasLimit = ''21000'', MaxFeePerGasWei = ''50000000000'',
      MaxPriorityFeePerGasWei = ''2000000000'', Nonce = 0\<rparr>"
  let ?good = "\<lparr>To = ''0xabc0'', ValueWei = ''0x1f'', Data = [], GasLimit = [],
      MaxFeePerGasWei = [], MaxPriorityFeePerGasWei = [], Nonce = 0\<rparr>"
  have "unparsable (ValueWei ?bad)"
    by (simp add: unparsable_def SetString_examples)
  then have "snd (signAndSendEVMTransaction example_signer example_eth ''cognito:user-42''
                    ?bad example_config example_signer) = []"
    using signAndSend_rejects_unparsable
      [of ?bad example_signer example_eth "''cognito:user-42''" example_config example_signer]
    by blast
  moreover have "fst (signAndSendEVMTransaction example_signer example_eth ''cognito:user-42''
                    ?bad example_config example_signer)
                 = Inl (Errorf ''invalid value: %s'' [S ''not-a-number''] None)"
    by (simp add: signAndSendEVMTransaction_def SetString_examples)
  moreover have "To ?good \<noteq> [] \<and> \<not> unparsable (ValueWei ?good)
      \<and> \<not> unparsable (GasLimit ?good) \<and> \<not> unparsable (MaxFeePerGasWei ?good)
      \<and> \<not> unparsable (MaxPriorityFeePerGasWei ?good)"
    by (simp add: unparsable_def SetString_examples)
  then obtain hash where
    h: "snd (signAndSendEVMTransaction example_signer example_eth ''cognito:user-42''
          ?good example_config example_signer) = [(''cognito:user-42'', hash)]"
    using signAndSend_rejects_unparsable
      [of ?good example_signer example_eth "''cognito:user-42''" example_config example_signer]
    by blast
  moreover have "snd (signAndSendEVMTransaction example_signer example_eth ''cognito:user-42''
          ?good example_config example_signer) = [(''cognito:user-42'', [1, 2, 3])]"
    by (simp add: signAndSendEVMTransaction_def signTransaction_def example_signer_def
          example_eth_def SetString_examples)
  ultimately show ?thesis by (simp add: prod_eq_iff)
qed

text \<open>
  C6 as stated fails for a negative number: \<open>SetString\<close> accepts \<open>-1\<close>, the transaction
  is built with the value \<open>-1\<close>, the signing service is called on its hash, and the call
  returns a transaction hash.
\<close>

theorem signAndSend_accepts_negative_value:
  "signAndSendEVMTransaction example_signer example_eth ''cognito:user-42''
     \<lparr>To = ''0xabc0'', ValueWei = ''-1'', Data = [], GasLimit = ''21000'',
      MaxFeePerGasWei = ''50000000000'', MaxPriorityFeePerGasWei = ''2000000000'', Nonce = 0\<rparr>
     example_config example_signer
   = (Inr ''0x5e5e'', [(''cognito:user-42'', [1, 2, 3])])"
  by (simp add: signAndSendEVMTransaction_def signTransaction_def example_signer_def
        example_eth_def SetString_def nat_scan_def scan_prefix_def digit_val_def)

subsection \<open>An existing wallet (C7)\<close>

lemma nk_StorageRead_wallet:
  "StorageRead_fails nk = None \<Longrightarrow>
   nk_StorageRead [\<lparr>read_Collection = ''wallet'', read_Key = externalID, read_UserID = []\<rparr>] nk
     = (Inr (case objects nk (''wallet'', externalID, []) of
               None \<Rightarrow> [] | Some obj \<Rightarrow> [Some obj]),
        nk\<lparr>trace := trace nk @ [wallet_read externalID]\<rparr>)"
  by (simp add: nk_StorageRead_def found_objects_def wallet_read_def)

lemma example_nk_fields:
  "objects (example_nk objs) = objs" "StorageRead_fails (example_nk objs) = None"
  "StorageWrite_fails (example_nk objs) = None" "trace (example_nk objs) = []"
  by (simp_all add: example_nk_def)

lemma example_config_fields:
  "WalletEnabled example_config" "WalletChain example_config = ''evm''"
  by (simp_all add: example_config_def)

lemma ensureWallet_found:
  assumes "objects nk (''wallet'', externalID, []) = Some obj" and "Value obj = Marshalled w"
    and "StorageRead_fails nk = None" and "WalletEnabled config"
  shows "ensureWallet cr now externalID config nk
           = (Inr w, nk\<lparr>trace := trace nk @ [wallet_read externalID]\<rparr>)"
  using assms by (simp add: ensureWallet_def WalletCollection_def nk_StorageRead_wallet)

lemma ensureWallet_cm_found:
  assumes "objects nk (''wallet'', externalID, []) = Some obj" and "Value obj = Marshalled w"
    and "StorageRead_fails nk = None"
  shows "ensureWallet_cm cr now externalID chain nk
           = (Inr w, nk\<lparr>trace := trace nk @ [wallet_read externalID]\<rparr>)"
  using assms
  by (simp add: ensureWallet_cm_def readWallet_def walletCollection_def nk_StorageRead_wallet)

text \<open>
  C7, as amended. Let the storage hold a wallet record for the external identity and
  let reads of the storage succeed. Then \<open>ensureWallet\<close> of cognito_module, and
  \<open>ensureWallet\<close> of the runtime module when the wallet feature is on, return that
  record, and the only thing they do is the read: the state afterwards is the state
  before with the read added to the trace, so there is no derivation and no write, and a
  second call returns the same record. With the wallet feature off the runtime module
  returns \<open>ErrWalletNotEnabled\<close> and does nothing.
\<close>

theorem ensureWallet_existing:
  assumes "objects nk (''wallet'', externalID, []) = Some obj" and "Value obj = Marshalled w"
    and "StorageRead_fails nk = None"
  shows "(WalletEnabled config \<longrightarrow>
            ensureWallet cr now externalID config nk
              = (Inr w, nk\<lparr>trace := trace nk @ [wallet_read externalID]\<rparr>)
          \<and> fst (ensureWallet cr now' externalID config
                    (snd (ensureWallet cr now externalID config nk))) = Inr w)
       \<and> (\<not> WalletEnabled config \<longrightarrow>
            ensureWallet cr now externalID config nk = (Inl (Sentinel ErrWalletNotEnabled), nk))
       \<and> ensureWallet_cm cr now externalID chain nk
              = (Inr w, nk\<lparr>trace := trace nk @ [wallet_read externalID]\<rparr>)
       \<and> fst (ensureWallet_cm cr now' externalID chain
                    (snd (ensureWallet_cm cr now externalID chain nk))) = Inr w"
proof -
  let ?nk' = "nk\<lparr>trace := trace nk @ [wallet_read externalID]\<rparr>"
  have again: "objects ?nk' (''wallet'', externalID, []) = Some obj"
    "StorageRead_fails ?nk' = None"
    using assms by simp_all
  have off: "\<not> WalletEnabled config \<Longrightarrow>
      ensureWallet cr now externalID config nk = (Inl (Sentinel ErrWalletNotEnabled), nk)"
    by (simp add: ensureWallet_def)
  show ?thesis
    using ensureWallet_found[OF assms] ensureWallet_found[OF again(1) assms(2) again(2)]
      ensureWallet_cm_found[OF assms] ensureWallet_cm_found[OF again(1) assms(2) again(2)] off
    by simp
qed

text \<open>The identity of the example scenarios, with a wallet in storage.\<close>

theorem ensureWallet_existing_witness:
  "ensureWallet example_crypto example_now ''cognito:user-42'' example_config
      (example_nk [(''wallet'', ''cognito:user-42'', []) \<mapsto> example_object])
     = (Inr example_wallet,
        (example_nk [(''wallet'', ''cognito:user-42'', []) \<mapsto> example_object])
          \<lparr>trace := [wallet_read ''cognito:user-42'']\<rparr>)
   \<and> ensureWallet_cm example_crypto example_now ''cognito:user-42'' ''evm''
      (example_nk [(''wallet'', ''cognito:user-42'', []) \<mapsto> example_object])
     = (Inr example_wallet,
        (example_nk [(''wallet'', ''cognito:user-42'', []) \<mapsto> example_object])
          \<lparr>trace := [wallet_read ''cognito:user-42'']\<rparr>)
   \<and> ensureWallet example_crypto example_now ''cognito:user-42''
      (example_config\<lparr>WalletEnabled := False\<rparr>)
      (example_nk [(''wallet'', ''cognito:user-42'', []) \<mapsto> example_object])
     = (Inl (Sentinel ErrWalletNotEnabled),
        example_nk [(''wallet'', ''cognito:user-42'', []) \<mapsto> example_object])"
  using ensureWallet_existing
    [of "example_nk [(''wallet'', ''cognito:user-42'', []) \<mapsto> example_object]"
        "''cognito:user-42''" example_object example_wallet example_config example_crypto
        example_now example_now "''evm''"]
    ensureWallet_existing
    [of "example_nk [(''wallet'', ''cognito:user-42'', []) \<mapsto> example_object]"
        "''cognito:user-42''" example_object example_wallet
        "example_config\<lparr>WalletEnabled := False\<rparr>" example_crypto
        example_now example_now "''evm''"]
  by (auto simp add: example_nk_fields example_object_def example_config_fields)

text \<open>
  C7 as stated fails in the runtime module when the wallet feature is off: the wallet
  is in storage, and \<open>ensureWallet\<close> returns \<open>ErrWalletNotEnabled\<close>.
\<close>

theorem ensureWallet_existing_but_disabled:
  "fst (ensureWallet example_crypto example_now ''cognito:user-42''
          (example_config\<lparr>WalletEnabled := False\<rparr>)
          (example_nk [(''wallet'', ''cognito:user-42'', []) \<mapsto> example_object]))
   = Inl (Sentinel ErrWalletNotEnabled)"
  by (simp add: ensureWallet_def)

text \<open>
  Beside C7: \<open>ensureWallet\<close> of cognito_module takes a read that failed for a wallet that
  is not there. With the wallet in storage and the read failing, it derives an address
  and writes a new record over the stored one.
\<close>

lemma ensureWallet_cm_read_failure:
  "ensureWallet_cm example_crypto example_now ''cognito:user-42'' ''evm''
     ((example_nk [(''wallet'', ''cognito:user-42'', []) \<mapsto> example_object])
        \<lparr>StorageRead_fails := Some (External ''context deadline exceeded'')\<rparr>)
   = (Inr \<lparr>Chain = ''evm'', Address = ''0x0f'', CreatedAt = 1700000000\<rparr>,
      (example_nk [(''wallet'', ''cognito:user-42'', []) \<mapsto>
                    example_object\<lparr>Value := Marshalled \<lparr>Chain = ''evm'', Address = ''0x0f'',
                                     CreatedAt = 1700000000\<rparr>, PermissionRead := 0\<rparr>])
        \<lparr>StorageRead_fails := Some (External ''context deadline exceeded''),
         trace := [wallet_read ''cognito:user-42'', DeriveCall ''cognito:user-42'',
                   StorageWriteCall
                     [\<lparr>write_Collection = ''wallet'', write_Key = ''cognito:user-42'',
                       write_UserID = [],
                       write_Value = Marshalled \<lparr>Chain = ''evm'', Address = ''0x0f'',
                                       CreatedAt = 1700000000\<rparr>,
                       write_PermissionRead = 0, write_PermissionWrite = 0\<rparr>]]\<rparr>)"
  by (simp add: ensureWallet_cm_def readWallet_def nk_StorageRead_def writeWallet_def
        nk_StorageWrite_def json_Marshal_def deriveAddress_def walletCollection_def
        wallet_read_def example_nk_def example_object_def example_crypto_def example_now_def
        Unix_def hex_digit_def Let_def)

subsection \<open>An unsupported chain (C8)\<close>

lemma ensureWallet_objects_unchanged:
  assumes "WalletChain config \<noteq> ''evm''"
  shows "objects (snd (ensureWallet cr now externalID config nk)) = objects nk"
  using assms
  by (simp add: ensureWallet_def nk_StorageRead_def deriveWalletAddress_def Let_def
        split: option.splits sum.splits)

lemma ensureWallet_absent_unsupported:
  assumes "WalletChain config \<noteq> ''evm''" and "WalletEnabled config"
    and "StorageRead_fails nk = None" and "objects nk (''wallet'', externalID, []) = None"
  shows "ensureWallet cr now externalID config nk
           = (Inl (Sentinel ErrInvalidChain),
              nk\<lparr>trace := trace nk @ [wallet_read externalID, DeriveCall externalID]\<rparr>)"
  using assms
  by (simp add: ensureWallet_def WalletCollection_def nk_StorageRead_wallet
        deriveWalletAddress_def)

lemma getWallet_absent:
  assumes "StorageRead_fails nk = None" and "objects nk (''wallet'', externalID, []) = None"
  shows "fst (getWallet externalID nk) = Inl (Sentinel ErrWalletNotFound)"
  using assms by (simp add: getWallet_def WalletCollection_def nk_StorageRead_wallet)

text \<open>
  C8, as amended. With a configured chain other than \<open>evm\<close>, \<open>ensureWallet\<close> never
  changes the stored objects. When moreover the wallet feature is on and reads of the
  storage succeed: if the storage holds no wallet for the external identity, the call
  fails with \<open>ErrInvalidChain\<close> after one read and one attempt to derive, and a
  \<open>getWallet\<close> for that identity afterwards finds no record; if it holds one, the call
  returns it.
\<close>

theorem ensureWallet_unsupported_chain:
  assumes "WalletChain config \<noteq> ''evm''"
  shows "objects (snd (ensureWallet cr now externalID config nk)) = objects nk
       \<and> (WalletEnabled config \<and> StorageRead_fails nk = None
            \<and> objects nk (''wallet'', externalID, []) = None \<longrightarrow>
          ensureWallet cr now externalID config nk
            = (Inl (Sentinel ErrInvalidChain),
               nk\<lparr>trace := trace nk @ [wallet_read externalID, DeriveCall externalID]\<rparr>)
          \<and> fst (getWallet externalID (snd (ensureWallet cr now externalID config nk)))
              = Inl (Sentinel ErrWalletNotFound))
       \<and> (WalletEnabled config \<and> StorageRead_fails nk = None
            \<and> objects nk (''wallet'', externalID, []) = Some obj \<and> Value obj = Marshalled w
          \<longrightarrow> fst (ensureWallet cr now externalID config nk) = Inr w)"
  using ensureWallet_objects_unchanged[OF assms] ensureWallet_absent_unsupported[OF assms]
    getWallet_absent ensureWallet_found[of nk externalID obj w config cr now]
  by auto

text \<open>
  The fifth example scenario, the identity \<open>user-7\<close> and an unsupported chain; and the
  identity \<open>user-42\<close>, whose wallet is in storage.
\<close>

theorem ensureWallet_unsupported_chain_witness:
  "ensureWallet example_crypto example_now ''cognito:user-7''
      (example_config\<lparr>WalletChain := ''unsupported-chain''\<rparr>) (example_nk Map.empty)
     = (Inl (Sentinel ErrInvalidChain),
        (example_nk Map.empty)
          \<lparr>trace := [wallet_read ''cognito:user-7'', DeriveCall ''cognito:user-7'']\<rparr>)
   \<and> fst (getWallet ''cognito:user-7''
        (snd (ensureWallet example_crypto example_now ''cognito:user-7''
                (example_config\<lparr>WalletChain := ''unsupported-chain''\<rparr>) (example_nk Map.empty))))
     = Inl (Sentinel ErrWalletNotFound)
   \<and> objects (snd (ensureWallet example_crypto example_now ''cognito:user-42''
                (example_config\<lparr>WalletChain := ''unsupported-chain''\<rparr>)
                (example_nk [(''wallet'', ''cognito:user-42'', []) \<mapsto> example_object])))
     = [(''wallet'', ''cognito:user-42'', []) \<mapsto> example_object]"
  using ensureWallet_unsupported_chain
    [of "example_config\<lparr>WalletChain := ''unsupported-chain''\<rparr>" example_crypto example_now
        "''cognito:user-7''" "example_nk Map.empty"]
    ensureWallet_unsupported_chain
    [of "example_config\<lparr>WalletChain := ''unsupported-chain''\<rparr>" example_crypto example_now
        "''cognito:user-42''"
        "example_nk [(''wallet'', ''cognito:user-42'', []) \<mapsto> example_object]"]
  by (auto simp add: example_nk_fields example_config_fields)

text \<open>
  C8 as stated fails when the identity already has a wallet: with an unsupported chain
  configured, \<open>ensureWallet\<close> returns the stored wallet and no error.
\<close>

theorem ensureWallet_unsupported_chain_existing:
  "fst (ensureWallet example_crypto example_now ''cognito:user-42''
          (example_config\<lparr>WalletChain := ''unsupported-chain''\<rparr>)
          (example_nk [(''wallet'', ''cognito:user-42'', []) \<mapsto> example_object]))
   = Inr example_wallet"
  by (simp add: ensureWallet_def nk_StorageRead_def found_objects_def example_nk_fields
        example_object_def example_config_fields WalletCollection_def)

subsection \<open>User attributes (C9)\<close>

lemma ExtractUserVars_map:
  "map_of (ExtractUserVars c) =
     (((((if Email c \<noteq> [] then [''email'' \<mapsto> Email c] else Map.empty)
          (''email_verified'' \<mapsto> (if EmailVerified c then ''true'' else ''false'')))
         ++ (if Name c \<noteq> [] then [''name'' \<mapsto> Name c] else Map.empty))
        ++ (if Picture c \<noteq> [] then [''picture'' \<mapsto> Picture c] else Map.empty))
       (''provider'' \<mapsto> ''cognito''))
      ++ (if CognitoGroups c \<noteq> []
          then [''cognito_groups'' \<mapsto> join_groups 0 (CognitoGroups c) []] else Map.empty)"
  by (simp add: ExtractUserVars_def Let_def map_of_map_put)

text \<open>
  C9, as amended. The map \<open>ExtractUserVars\<close> returns has an entry for the email, the
  display name, the picture and the group memberships exactly when the claim is present
  and non-empty, holding the claim's value (the groups joined by commas). The verified
  flag is different: \<open>email_verified\<close> is always there, \<open>true\<close> or \<open>false\<close>, and so is
  \<open>provider\<close>, always \<open>cognito\<close>. The map has no other key.
\<close>

theorem ExtractUserVars_entries:
  "(map_of (ExtractUserVars c) ''email'' = (if Email c = [] then None else Some (Email c)))
   \<and> (map_of (ExtractUserVars c) ''name'' = (if Name c = [] then None else Some (Name c)))
   \<and> (map_of (ExtractUserVars c) ''picture'' =
        (if Picture c = [] then None else Some (Picture c)))
   \<and> (map_of (ExtractUserVars c) ''cognito_groups'' =
        (if CognitoGroups c = [] then None else Some (join_groups 0 (CognitoGroups c) [])))
   \<and> (map_of (ExtractUserVars c) ''email_verified'' =
        Some (if EmailVerified c then ''true'' else ''false''))
   \<and> (map_of (ExtractUserVars c) ''provider'' = Some ''cognito'')
   \<and> dom (map_of (ExtractUserVars c)) \<subseteq>
        {''email'', ''email_verified'', ''name'', ''picture'', ''provider'', ''cognito_groups''}"
proof -
  have e: "map_of (ExtractUserVars c) ''email'' = (if Email c = [] then None else Some (Email c))"
    by (simp add: ExtractUserVars_map map_add_def)
  have n: "map_of (ExtractUserVars c) ''name'' = (if Name c = [] then None else Some (Name c))"
    by (simp add: ExtractUserVars_map map_add_def)
  have p: "map_of (ExtractUserVars c) ''picture'' =
        (if Picture c = [] then None else Some (Picture c))"
    by (simp add: ExtractUserVars_map map_add_def)
  have g: "map_of (ExtractUserVars c) ''cognito_groups'' =
        (if CognitoGroups c = [] then None else Some (join_groups 0 (CognitoGroups c) []))"
    by (simp add: ExtractUserVars_map map_add_def)
  have v: "map_of (ExtractUserVars c) ''email_verified'' =
        Some (if EmailVerified c then ''true'' else ''false'')"
    by (simp add: ExtractUserVars_map map_add_def)
  have r: "map_of (ExtractUserVars c) ''provider'' = Some ''cognito''"
    by (simp add: ExtractUserVars_map map_add_def)
  have d: "dom (map_of (ExtractUserVars c)) \<subseteq>
        {''email'', ''email_verified'', ''name'', ''picture'', ''provider'', ''cognito_groups''}"
    unfolding ExtractUserVars_map by (simp add: subset_iff)
  show ?thesis using e n p g v r d by blast
qed

text \<open>The groups are joined with commas.\<close>

lemma join_groups_example: "join_groups 0 [''admins'', ''beta''] [] = ''admins,beta''"
  by simp

text \<open>
  C9 as stated fails for the verified flag: a token without any optional claim decodes
  to the zero values, and the map still holds \<open>email_verified = false\<close>.
\<close>

theorem ExtractUserVars_absent_verified_flag:
  "map_of (ExtractUserVars (example_claims 1700003600000000000)) ''email_verified''
     = Some ''false''"
  by (simp add: ExtractUserVars_map map_add_def example_claims_def)

subsection \<open>The wallet address and the signing key (C10)\<close>

text \<open>
  What a call of \<open>ensureWallet\<close> that returns a wallet has done when the storage held no
  record for the identity: the wallet feature is on, the read succeeded, the address of
  the wallet is the one \<open>deriveEVMAddress\<close> gives, and the record stored afterwards holds
  that wallet.
\<close>

lemma ensureWallet_provisions:
  assumes none: "objects nk (''wallet'', externalID, []) = None"
    and ok: "ensureWallet cr now externalID config nk = (Inr wallet, nk')"
  shows "WalletEnabled config \<and> StorageRead_fails nk = None
       \<and> deriveEVMAddress cr externalID config = Inr (Address wallet)
       \<and> wallet = \<lparr>Chain = ''evm'', Address = Address wallet, CreatedAt = UnixMilli now\<rparr>
       \<and> StorageRead_fails nk' = None
       \<and> objects nk' (''wallet'', externalID, [])
           = Some \<lparr>Collection = ''wallet'', Key = externalID, UserID = [],
                   Value = Marshalled wallet, PermissionRead = 1, PermissionWrite = 0\<rparr>"
proof -
  have en: "WalletEnabled config"
  proof (rule ccontr)
    assume "\<not> WalletEnabled config"
    with ok show False by (simp add: ensureWallet_def)
  qed
  have rd: "StorageRead_fails nk = None"
  proof (cases "StorageRead_fails nk")
    case None then show ?thesis .
  next
    case (Some err)
    with en ok show ?thesis by (simp add: ensureWallet_def nk_StorageRead_def)
  qed
  have ch: "WalletChain config = ''evm''"
  proof (rule ccontr)
    assume "WalletChain config \<noteq> ''evm''"
    from ensureWallet_absent_unsupported [OF this en rd none] ok show False by simp
  qed
  obtain address where ad: "deriveEVMAddress cr externalID config = Inr address"
  proof (cases "deriveEVMAddress cr externalID config")
    case (Inl err)
    with en rd none ch ok have False
      by (simp add: ensureWallet_def WalletCollection_def nk_StorageRead_wallet
            deriveWalletAddress_def)
    then show ?thesis ..
  next
    case (Inr address)
    then show ?thesis by (rule that)
  qed
  have wr: "StorageWrite_fails nk = None"
  proof (cases "StorageWrite_fails nk")
    case None then show ?thesis .
  next
    case (Some err)
    with en rd none ch ad ok show ?thesis
      by (simp add: ensureWallet_def WalletCollection_def nk_StorageRead_wallet
            deriveWalletAddress_def json_Marshal_def nk_StorageWrite_def Let_def)
  qed
  from en rd none ch ad wr
  have e: "ensureWallet cr now externalID config nk
          = (Inr \<lparr>Chain = ''evm'', Address = address, CreatedAt = UnixMilli now\<rparr>,
             nk\<lparr>trace := trace nk @ [wallet_read externalID, DeriveCall externalID,
                    StorageWriteCall
                      [\<lparr>write_Collection = ''wallet'', write_Key = externalID,
                         write_UserID = [],
                         write_Value = Marshalled \<lparr>Chain = ''evm'', Address = address,
                                                     CreatedAt = UnixMilli now\<rparr>,
                         write_PermissionRead = 1, write_PermissionWrite = 0\<rparr>]],
                objects := (objects nk)((''wallet'', externalID, []) \<mapsto>
                    \<lparr>Collection = ''wallet'', Key = externalID, UserID = [],
                     Value = Marshalled \<lparr>Chain = ''evm'', Address = address,
                                           CreatedAt = UnixMilli now\<rparr>,
                     PermissionRead = 1, PermissionWrite = 0\<rparr>)\<rparr>)"
    by (simp add: ensureWallet_def WalletCollection_def nk_StorageRead_wallet
          deriveWalletAddress_def json_Marshal_def nk_StorageWrite_def Let_def)
  from trans [OF ok [symmetric] e]
  have w: "wallet = \<lparr>Chain = ''evm'', Address = address, CreatedAt = UnixMilli now\<rparr>"
    and n: "nk' = nk\<lparr>trace := trace nk @ [wallet_read externalID, DeriveCall externalID,
                    StorageWriteCall
                      [\<lparr>write_Collection = ''wallet'', write_Key = externalID,
                         write_UserID = [],
                         write_Value = Marshalled \<lparr>Chain = ''evm'', Address = address,
                                                     CreatedAt = UnixMilli now\<rparr>,
                         write_PermissionRead = 1, write_PermissionWrite = 0\<rparr>]],
                objects := (objects nk)((''wallet'', externalID, []) \<mapsto>
                    \<lparr>Collection = ''wallet'', Key = externalID, UserID = [],
                     Value = Marshalled \<lparr>Chain = ''evm'', Address = address,
                                           CreatedAt = UnixMilli now\<rparr>,
                     PermissionRead = 1, PermissionWrite = 0\<rparr>)\<rparr>"
    by simp_all
  from w have a: "Address wallet = address" by simp
  from en rd ad w n a show ?thesis by simp
qed

text \<open>
  \<open>deriveEVMAddress\<close> and \<open>derivePrivateKey\<close> of the mock signing service build the same
  seed: the address is the address of the public key of the key the service derives, and
  the service signs with that key.
\<close>

lemma deriveEVMAddress_key:
  assumes "deriveEVMAddress cr externalID config = Inr address"
  shows "\<exists>priv. derivePrivateKey cr config externalID = Inr priv
           \<and> address = Address_Hex cr (crypto_PubkeyToAddress cr (Public cr priv))"
  using assms
  by (auto simp add: deriveEVMAddress_def derivePrivateKey_def Let_def split: sum.splits)

lemma GetKMSSigner_Sign_key:
  assumes "derivePrivateKey cr config externalID = Inr priv"
    and "Sign (GetKMSSigner cr config) externalID hash = Inr signature"
  shows "crypto_Sign cr hash priv = Inr signature"
  using assms
  by (auto simp add: GetKMSSigner_def NewMockKMSSigner_def MockKMSSigner_Sign_def
        split: sum.splits)

lemma getWallet_found:
  assumes "objects nk (''wallet'', externalID, []) = Some obj" and "Value obj = Marshalled w"
    and "StorageRead_fails nk = None"
  shows "fst (getWallet externalID nk) = Inr w"
  using assms by (simp add: getWallet_def WalletCollection_def nk_StorageRead_wallet)

text \<open>
  C10. Let \<open>ensureWallet\<close> provision the wallet of an external identity: the storage holds
  no record for it and the call returns a wallet. Then the mock signing service, made
  from the same configuration, derives a private key for that identity, and the address
  of the wallet is the address of its public key. The record stored under the identity
  holds that wallet, so \<open>getWallet\<close> returns it, and so do \<open>ensureWallet\<close> and \<open>getWallet\<close>
  in every later state that still holds the record and whose reads succeed. Whenever
  the service signs a hash for that identity, it signs with this key; so, if the library
  recovers from a signature the public key of the key that signed, the key recovered
  from such a signature has the address of the wallet.
\<close>

theorem wallet_address_is_signer_address:
  assumes "objects nk (''wallet'', externalID, []) = None"
    and "ensureWallet cr now externalID config nk = (Inr wallet, nk')"
  shows "\<exists>priv. derivePrivateKey cr config externalID = Inr priv
           \<and> Address wallet = Address_Hex cr (crypto_PubkeyToAddress cr (Public cr priv))
           \<and> objects nk' (''wallet'', externalID, [])
               = Some \<lparr>Collection = ''wallet'', Key = externalID, UserID = [],
                       Value = Marshalled wallet, PermissionRead = 1, PermissionWrite = 0\<rparr>
           \<and> fst (getWallet externalID nk') = Inr wallet
           \<and> (\<forall>later nk2.
                 objects nk2 (''wallet'', externalID, [])
                   = objects nk' (''wallet'', externalID, [])
                 \<and> StorageRead_fails nk2 = None \<longrightarrow>
                   fst (ensureWallet cr later externalID config nk2) = Inr wallet
                 \<and> fst (getWallet externalID nk2) = Inr wallet)
           \<and> (\<forall>hash signature.
                 Sign (GetKMSSigner cr config) externalID hash = Inr signature \<longrightarrow>
                   crypto_Sign cr hash priv = Inr signature
                 \<and> ((\<forall>h d sg. crypto_Sign cr h d = Inr sg
                                \<longrightarrow> crypto_SigToPub cr h sg = Inr (Public cr d))
                      \<longrightarrow> (\<exists>pub. crypto_SigToPub cr hash signature = Inr pub
                                \<and> Address_Hex cr (crypto_PubkeyToAddress cr pub)
                                    = Address wallet)))"
proof -
  from ensureWallet_provisions [OF assms]
  have en: "WalletEnabled config"
    and ad: "deriveEVMAddress cr externalID config = Inr (Address wallet)"
    and rd: "StorageRead_fails nk' = None"
    and ob: "objects nk' (''wallet'', externalID, [])
           = Some \<lparr>Collection = ''wallet'', Key = externalID, UserID = [],
                   Value = Marshalled wallet, PermissionRead = 1, PermissionWrite = 0\<rparr>"
    by simp_all
  from deriveEVMAddress_key [OF ad] obtain priv
    where pk: "derivePrivateKey cr config externalID = Inr priv"
      and pa: "Address wallet = Address_Hex cr (crypto_PubkeyToAddress cr (Public cr priv))"
    by blast
  have gw: "fst (getWallet externalID nk') = Inr wallet"
    by (rule getWallet_found [OF ob _ rd]) simp
  have ew: "fst (ensureWallet cr later externalID config nk2) = Inr wallet
            \<and> fst (getWallet externalID nk2) = Inr wallet"
    if l: "objects nk2 (''wallet'', externalID, []) = objects nk' (''wallet'', externalID, [])
           \<and> StorageRead_fails nk2 = None" for later nk2
  proof -
    from l ob have ob2: "objects nk2 (''wallet'', externalID, [])
           = Some \<lparr>Collection = ''wallet'', Key = externalID, UserID = [],
                   Value = Marshalled wallet, PermissionRead = 1, PermissionWrite = 0\<rparr>"
      and rd2: "StorageRead_fails nk2 = None"
      by simp_all
    have "fst (ensureWallet cr later externalID config nk2) = Inr wallet"
      using ensureWallet_found [OF ob2 _ rd2 en, of wallet cr later] by simp
    moreover have "fst (getWallet externalID nk2) = Inr wallet"
      by (rule getWallet_found [OF ob2 _ rd2]) simp
    ultimately show ?thesis by simp
  qed
  have sg: "crypto_Sign cr hash priv = Inr signature
            \<and> ((\<forall>h d sg. crypto_Sign cr h d = Inr sg
                    \<longrightarrow> crypto_SigToPub cr h sg = Inr (Public cr d))
                 \<longrightarrow> (\<exists>pub. crypto_SigToPub cr hash signature = Inr pub
                        \<and> Address_Hex cr (crypto_PubkeyToAddress cr pub) = Address wallet))"
    if s: "Sign (GetKMSSigner cr config) externalID hash = Inr signature" for hash signature
  proof -
    have k: "crypto_Sign cr hash priv = Inr signature"
      by (rule GetKMSSigner_Sign_key [OF pk s])
    with pa show ?thesis by auto
  qed
  from pk pa ob gw ew sg show ?thesis by blast
qed

text \<open>
  When the wallet of an identity is created on the chain \<open>evm\<close>, the wallet returned and
  the record stored hold the address \<open>deriveEVMAddress\<close> gives.
\<close>

lemma ensureWallet_stores_derived_address:
  assumes "WalletEnabled config" and "WalletChain config = ''evm''"
    and "StorageRead_fails nk = None" and "StorageWrite_fails nk = None"
    and "objects nk (''wallet'', externalID, []) = None"
    and "deriveEVMAddress cr externalID config = Inr address"
  shows "fst (ensureWallet cr now externalID config nk)
           = Inr \<lparr>Chain = ''evm'', Address = address, CreatedAt = UnixMilli now\<rparr>
       \<and> objects (snd (ensureWallet cr now externalID config nk)) (''wallet'', externalID, [])
           = Some \<lparr>Collection = ''wallet'', Key = externalID, UserID = [],
                   Value = Marshalled \<lparr>Chain = ''evm'', Address = address,
                                       CreatedAt = UnixMilli now\<rparr>,
                   PermissionRead = 1, PermissionWrite = 0\<rparr>"
  using assms
  by (simp add: ensureWallet_def WalletCollection_def nk_StorageRead_wallet
        deriveWalletAddress_def json_Marshal_def nk_StorageWrite_def Let_def)

text \<open>
  The toy parameters: recovery gives back the key that signed; the keys of two identities
  and of two master key references differ.
\<close>

lemma example_crypto_seeded_recovers:
  "\<forall>h d sg. crypto_Sign example_crypto_seeded h d = Inr sg
      \<longrightarrow> crypto_SigToPub example_crypto_seeded h sg = Inr (Public example_crypto_seeded d)"
  by (auto simp add: example_crypto_seeded_def unat_of_nat split: if_splits)

lemma example_seeded_keys:
  "derivePrivateKey example_crypto_seeded example_config ''cognito:user-42'' = Inr 62"
  "derivePrivateKey example_crypto_seeded example_config ''cognito:user-43'' = Inr 63"
  "derivePrivateKey example_crypto_seeded
     (example_config\<lparr>WalletMasterKeyARN := ''arn:aws:kms:key/2''\<rparr>) ''cognito:user-42''
   = Inr 193"
  by (simp_all add: derivePrivateKey_def example_crypto_seeded_def example_config_def
        example_checksum_def)

lemma example_seeded_address:
  "deriveEVMAddress example_crypto_seeded ''cognito:user-42'' example_config = Inr ''0x3e3f''"
  by (simp add: deriveEVMAddress_def example_crypto_seeded_def example_config_def
        example_checksum_def hex_digit_def)

lemma example_seeded_signature:
  "Sign (GetKMSSigner example_crypto_seeded example_config) ''cognito:user-42'' [1, 2, 3]
   = Inr [1, 2, 3, 62]"
  by (simp add: GetKMSSigner_def NewMockKMSSigner_def MockKMSSigner_Sign_def
        example_seeded_keys) (simp add: example_crypto_seeded_def)

text \<open>
  With the toy parameters and an empty storage: the wallet provisioned for
  \<open>cognito:user-42\<close> is stored with the address of the key the service derives for that
  identity, and the key recovered from a signature of the service has that address.
  Another identity, or another master key reference, has another key.
\<close>

theorem wallet_address_is_signer_address_witness:
  "fst (ensureWallet example_crypto_seeded example_now ''cognito:user-42'' example_config
          (example_nk Map.empty))
     = Inr \<lparr>Chain = ''evm'', Address = ''0x3e3f'', CreatedAt = 1700000000000\<rparr>
   \<and> objects (snd (ensureWallet example_crypto_seeded example_now ''cognito:user-42''
                      example_config (example_nk Map.empty)))
        (''wallet'', ''cognito:user-42'', [])
     = Some \<lparr>Collection = ''wallet'', Key = ''cognito:user-42'', UserID = [],
             Value = Marshalled \<lparr>Chain = ''evm'', Address = ''0x3e3f'',
                                 CreatedAt = 1700000000000\<rparr>,
             PermissionRead = 1, PermissionWrite = 0\<rparr>
   \<and> fst (ensureWallet example_crypto_seeded (example_now + 1000000000) ''cognito:user-42''
            example_config
            (snd (ensureWallet example_crypto_seeded example_now ''cognito:user-42''
                    example_config (example_nk Map.empty))))
     = Inr \<lparr>Chain = ''evm'', Address = ''0x3e3f'', CreatedAt = 1700000000000\<rparr>
   \<and> derivePrivateKey example_crypto_seeded example_config ''cognito:user-42'' = Inr 62
   \<and> Address_Hex example_crypto_seeded
        (crypto_PubkeyToAddress example_crypto_seeded (Public example_crypto_seeded 62))
     = ''0x3e3f''
   \<and> Sign (GetKMSSigner example_crypto_seeded example_config) ''cognito:user-42'' [1, 2, 3]
     = Inr [1, 2, 3, 62]
   \<and> (\<exists>pub. crypto_SigToPub example_crypto_seeded [1, 2, 3] [1, 2, 3, 62] = Inr pub
          \<and> Address_Hex example_crypto_seeded (crypto_PubkeyToAddress example_crypto_seeded pub)
              = ''0x3e3f'')
   \<and> derivePrivateKey example_crypto_seeded example_config ''cognito:user-43'' = Inr 63
   \<and> derivePrivateKey example_crypto_seeded
        (example_config\<lparr>WalletMasterKeyARN := ''arn:aws:kms:key/2''\<rparr>) ''cognito:user-42''
     = Inr 193"
proof -
  let ?run = "ensureWallet example_crypto_seeded example_now ''cognito:user-42''
                example_config (example_nk Map.empty)"
  let ?wallet = "\<lparr>Chain = ''evm'', Address = ''0x3e3f'', CreatedAt = 1700000000000\<rparr>"
  have none: "objects (example_nk Map.empty) (''wallet'', ''cognito:user-42'', []) = None"
    by (simp add: example_nk_fields)
  from ensureWallet_stores_derived_address
         [OF example_config_fields example_nk_fields(2) example_nk_fields(3) none
             example_seeded_address, of example_now]
  have r: "fst ?run = Inr ?wallet"
    and o: "objects (snd ?run) (''wallet'', ''cognito:user-42'', [])
              = Some \<lparr>Collection = ''wallet'', Key = ''cognito:user-42'', UserID = [],
                      Value = Marshalled ?wallet, PermissionRead = 1, PermissionWrite = 0\<rparr>"
    by (simp_all add: UnixMilli_def example_now_def)
  from r have e: "?run = (Inr ?wallet, snd ?run)" by (simp add: prod_eq_iff)
  from wallet_address_is_signer_address [OF none e]
  obtain priv where
    d: "derivePrivateKey example_crypto_seeded example_config ''cognito:user-42'' = Inr priv"
    and a: "Address ?wallet = Address_Hex example_crypto_seeded
              (crypto_PubkeyToAddress example_crypto_seeded (Public example_crypto_seeded priv))"
    and lt: "\<forall>later nk2.
              objects nk2 (''wallet'', ''cognito:user-42'', [])
                = objects (snd ?run) (''wallet'', ''cognito:user-42'', [])
              \<and> StorageRead_fails nk2 = None \<longrightarrow>
                fst (ensureWallet example_crypto_seeded later ''cognito:user-42''
                       example_config nk2) = Inr ?wallet
              \<and> fst (getWallet ''cognito:user-42'' nk2) = Inr ?wallet"
    and s: "\<forall>hash signature.
              Sign (GetKMSSigner example_crypto_seeded example_config) ''cognito:user-42'' hash
                = Inr signature \<longrightarrow>
              crypto_Sign example_crypto_seeded hash priv = Inr signature
              \<and> ((\<forall>h d sg. crypto_Sign example_crypto_seeded h d = Inr sg
                     \<longrightarrow> crypto_SigToPub example_crypto_seeded h sg
                           = Inr (Public example_crypto_seeded d))
                   \<longrightarrow> (\<exists>pub. crypto_SigToPub example_crypto_seeded hash signature = Inr pub
                          \<and> Address_Hex example_crypto_seeded
                               (crypto_PubkeyToAddress example_crypto_seeded pub)
                              = Address ?wallet))"
    by blast
  from d have p: "priv = 62" by (simp add: example_seeded_keys)
  from ensureWallet_provisions [OF none e]
  have "StorageRead_fails (snd ?run) = None" by simp
  with lt have l2: "fst (ensureWallet example_crypto_seeded (example_now + 1000000000)
                           ''cognito:user-42'' example_config (snd ?run)) = Inr ?wallet"
    by blast
  from s example_seeded_signature example_crypto_seeded_recovers
  have v: "\<exists>pub. crypto_SigToPub example_crypto_seeded [1, 2, 3] [1, 2, 3, 62] = Inr pub
             \<and> Address_Hex example_crypto_seeded
                  (crypto_PubkeyToAddress example_crypto_seeded pub) = Address ?wallet"
    by blast
  from a p have a': "Address_Hex example_crypto_seeded
        (crypto_PubkeyToAddress example_crypto_seeded (Public example_crypto_seeded 62))
     = ''0x3e3f''"
    by simp
  from v have v': "\<exists>pub. crypto_SigToPub example_crypto_seeded [1, 2, 3] [1, 2, 3, 62] = Inr pub
          \<and> Address_Hex example_crypto_seeded (crypto_PubkeyToAddress example_crypto_seeded pub)
              = ''0x3e3f''"
    by simp
  from r o l2 example_seeded_keys a' example_seeded_signature v' show ?thesis
    by (intro conjI)
qed

end
